theory Spec2Isabelle
  imports Complex_Main "HOL-Library.Sublist" "HOL-Library.Word"
begin

section \<open>Data model of the dashboard page (src/app/page.tsx)\<close>

text \<open>
  A JavaScript string is a sequence of 16-bit code units. The texts that the program
  searches (the name and the symbol of an asset, the search query) and the texts that
  the currency formatter prints are modelled so: \<open>jsstring\<close>. The texts that the program
  writes itself or only copies and compares as wholes (messages, class names, currency
  codes, asset identifiers, addresses) are modelled as \<open>string\<close>, a list of 8-bit
  characters read as the code units U+0000 to U+00FF; \<open>units\<close> reads such a text as a
  \<open>jsstring\<close>. A number field of a record is modelled by its exact value, a rational;
  the values of the type \<^verbatim>\<open>number\<close> that are no rational are modelled where a function is
  stated for every number (\<open>js_number\<close>, with the currency formatter).
\<close>

type_synonym jsstring = "16 word list"

definition units :: "string \<Rightarrow> jsstring" where
  "units s = map of_char s"

type_synonym number = rat

text \<open>\<^verbatim>\<open>interface Cryptocurrency\<close>, lines 32 to 41.\<close>

record Cryptocurrency =
  crypto_id :: string
  symbol :: jsstring
  name :: jsstring
  current_price :: number
  price_change_percentage_24h :: number
  market_cap :: number
  total_volume :: number
  image_uri :: string

text \<open>\<^verbatim>\<open>interface ChartDataResponse\<close>, lines 43 to 45: pairs (timestamp, price).\<close>

type_synonym ChartDataResponse = "(number \<times> number) list"

text \<open>The one dataset object built at lines 181 to 191, and \<^verbatim>\<open>ChartData<"line">\<close>.\<close>

record dataset =
  label :: string
  data :: "number list"
  borderColor :: string
  backgroundColor :: string
  borderWidth :: nat
  fill :: bool
  tension :: number
  pointRadius :: nat
  pointHoverRadius :: nat

record ChartData =
  labels :: "string list"
  datasets :: "dataset list"

text \<open>The nine \<^verbatim>\<open>useState\<close> variables of \<^verbatim>\<open>Home\<close>, lines 82 to 95.\<close>

record state =
  darkMode :: bool
  searchQuery :: jsstring
  cryptocurrencies :: "Cryptocurrency list"
  filteredCryptos :: "Cryptocurrency list"
  selectedCrypto :: string
  chartData :: ChartData
  selectedCurrency :: string
  loading :: bool
  message :: string

text \<open>The initial values passed to \<^verbatim>\<open>useState\<close>.\<close>

definition initial_state :: state where
  "initial_state =
     \<lparr>darkMode = False, searchQuery = [], cryptocurrencies = [], filteredCryptos = [],
      selectedCrypto = ''bitcoin'', chartData = \<lparr>labels = [], datasets = []\<rparr>,
      selectedCurrency = ''USD'', loading = True, message = ''''\<rparr>"

text \<open>The options of the currency selector: \<^verbatim>\<open>CURRENCIES\<close>, line 48.\<close>

definition CURRENCIES :: "string list" where
  "CURRENCIES = [''USD'', ''EUR'', ''GBP'', ''JPY'']"

section \<open>String primitives of the platform\<close>

text \<open>
  \<^verbatim>\<open>String.prototype.toLowerCase\<close> on a text of code units below U+0100, where it works
  unit by unit: the letters A to Z and the capital letters U+00C0 to U+00DE (without
  the multiplication sign U+00D7) move up by 32, every other code unit stays. The
  program applies it so to the selected currency code (lines 150 and 169).
\<close>

definition toLowerChar :: "char \<Rightarrow> char" where
  "toLowerChar c =
     (let n = (of_char c :: nat) in
      if (65 \<le> n \<and> n \<le> 90) \<or> (192 \<le> n \<and> n \<le> 222 \<and> n \<noteq> 215)
      then char_of (n + 32) else c)"

definition toLowerCase :: "string \<Rightarrow> string" where
  "toLowerCase s = map toLowerChar s"

text \<open>
  On a \<open>jsstring\<close> \<^verbatim>\<open>toLowerCase\<close> is the whole case conversion of the Unicode standard:
  it is not unit by unit (U+0130 alone gives the two code units U+0069 U+0307) and it
  looks at the context (a capital sigma gives U+03C2 after a letter at the end of a
  word and U+03C3 elsewhere). The search takes it as a parameter, a function from
  texts to texts (\<open>lower\<close>, \<open>lw\<close>).
  \<open>lower_units\<close> is what the conversion does to texts of code units below U+0100: the
  same as \<open>toLowerCase\<close> above.
\<close>

definition toLowerUnit :: "16 word \<Rightarrow> 16 word" where
  "toLowerUnit c =
     (let n = unat c in
      if (65 \<le> n \<and> n \<le> 90) \<or> (192 \<le> n \<and> n \<le> 222 \<and> n \<noteq> 215)
      then c + 32 else c)"

definition lower_units :: "jsstring \<Rightarrow> jsstring" where
  "lower_units s = map toLowerUnit s"

text \<open>
  \<open>lower_letters\<close> is what the conversion does to texts made of the letters A to Z, a to z
  and the capital sigma U+03A3: a capital sigma that ends the text and has a letter
  before it becomes the final sigma U+03C2, every other one the sigma U+03C3. The flag
  says whether a letter came before.
\<close>

fun lower_letters_after :: "bool \<Rightarrow> jsstring \<Rightarrow> jsstring" where
  "lower_letters_after before [] = []"
| "lower_letters_after before (c # cs) =
     (if c = 0x3A3 then (if before \<and> cs = [] then 0x3C2 else 0x3C3) else toLowerUnit c)
     # lower_letters_after True cs"

definition lower_letters :: "jsstring \<Rightarrow> jsstring" where
  "lower_letters s = lower_letters_after False s"

text \<open>
  \<^verbatim>\<open>String.prototype.includes\<close>: is there a position of \<open>s\<close> at which \<open>q\<close> starts.
  \<open>starts_with\<close> compares code unit by code unit; \<open>str_includes\<close> tries every position from
  the left, the position after the last code unit too.
\<close>

fun starts_with :: "'a list \<Rightarrow> 'a list \<Rightarrow> bool" where
  "starts_with s [] = True"
| "starts_with [] (q # qs) = False"
| "starts_with (c # cs) (q # qs) = (c = q \<and> starts_with cs qs)"

fun str_includes :: "'a list \<Rightarrow> 'a list \<Rightarrow> bool" where
  "str_includes [] q = (q = [])"
| "str_includes (c # cs) q = (starts_with (c # cs) q \<or> str_includes cs q)"

section \<open>Filter/Search (lines 135 to 142)\<close>

text \<open>The predicate handed to \<^verbatim>\<open>cryptocurrencies.filter\<close>, lines 137 to 139.\<close>

definition crypto_matches ::
  "(jsstring \<Rightarrow> jsstring) \<Rightarrow> jsstring \<Rightarrow> Cryptocurrency \<Rightarrow> bool" where
  "crypto_matches lower q crypto =
     (str_includes (lower (name crypto)) (lower q) \<or>
      str_includes (lower (symbol crypto)) (lower q))"

text \<open>\<^verbatim>\<open>Array.prototype.filter\<close> keeps the elements that satisfy the predicate, in order.\<close>

fun array_filter :: "('a \<Rightarrow> bool) \<Rightarrow> 'a list \<Rightarrow> 'a list" where
  "array_filter p [] = []"
| "array_filter p (x # xs) = (if p x then x # array_filter p xs else array_filter p xs)"

definition filtered ::
  "(jsstring \<Rightarrow> jsstring) \<Rightarrow> jsstring \<Rightarrow> Cryptocurrency list \<Rightarrow> Cryptocurrency list" where
  "filtered lower q cs = array_filter (crypto_matches lower q) cs"

text \<open>The body of the effect: compute \<open>filtered\<close> and store it with \<^verbatim>\<open>setFilteredCryptos\<close>.\<close>

definition filter_effect :: "(jsstring \<Rightarrow> jsstring) \<Rightarrow> state \<Rightarrow> state" where
  "filter_effect lower s =
     s\<lparr>filteredCryptos := filtered lower (searchQuery s) (cryptocurrencies s)\<rparr>"

section \<open>User input handlers\<close>

text \<open>
  The four handlers of the page: the currency selector (line 230), the theme button
  (line 239), the search box (line 273) and a click on an asset card (line 303).
\<close>

definition setSelectedCurrency :: "string \<Rightarrow> state \<Rightarrow> state" where
  "setSelectedCurrency v s = s\<lparr>selectedCurrency := v\<rparr>"

definition toggleDarkMode :: "state \<Rightarrow> state" where
  "toggleDarkMode s = s\<lparr>darkMode := \<not> darkMode s\<rparr>"

definition setSearchQuery :: "jsstring \<Rightarrow> state \<Rightarrow> state" where
  "setSearchQuery v s = s\<lparr>searchQuery := v\<rparr>"

definition setSelectedCrypto :: "string \<Rightarrow> state \<Rightarrow> state" where
  "setSelectedCrypto v s = s\<lparr>selectedCrypto := v\<rparr>"

section \<open>The two fetchers (lines 145 to 198)\<close>

text \<open>
  A request to the upstream API, by the parameters that vary in the two URLs:
  \<^verbatim>\<open>/coins/markets?vs_currency=...\<close> and \<^verbatim>\<open>/coins/<id>/market_chart?vs_currency=...\<close>.
\<close>

datatype request =
  MarketsRequest string
  | MarketChartRequest string string

text \<open>
  What makes the \<^verbatim>\<open>try\<close> block fail: \<^verbatim>\<open>axios.get\<close> rejects on a transport fault and on a
  status outside 2xx; in \<^verbatim>\<open>fetchChartData\<close> a body without \<^verbatim>\<open>prices\<close> makes \<^verbatim>\<open>.map\<close> throw.
\<close>

datatype fetch_error = NetworkError | HttpStatus nat | MalformedBody

text \<open>
  \<^verbatim>\<open>fetchCryptoData\<close> is an async function. \<open>fetchCryptoData_start\<close> is its part before the
  \<^verbatim>\<open>await\<close> (lines 146 to 151): two state updates and the request sent.
  \<open>fetchCryptoData_finish\<close> is the part after it (lines 152 to 161), given what the
  awaited promise settled to and the state at that moment.
\<close>

definition fetchCryptoData_start :: "state \<Rightarrow> state \<times> request" where
  "fetchCryptoData_start s =
     (s\<lparr>loading := True, message := ''''\<rparr>, MarketsRequest (toLowerCase (selectedCurrency s)))"

definition fetchCryptoData_finish ::
  "fetch_error + Cryptocurrency list \<Rightarrow> state \<Rightarrow> state" where
  "fetchCryptoData_finish response s =
     (case response of
        Inr response_data \<Rightarrow>
          s\<lparr>cryptocurrencies := response_data, loading := False,
            message := ''Data fetched successfully!''\<rparr>
      | Inl error \<Rightarrow>
          s\<lparr>message := ''Failed to fetch cryptocurrency data. Please try again later.'',
            loading := False\<rparr>)"

text \<open>The whole call when nothing else touches the state while the request is out.\<close>

definition fetchCryptoData :: "fetch_error + Cryptocurrency list \<Rightarrow> state \<Rightarrow> state" where
  "fetchCryptoData response s = fetchCryptoData_finish response (fst (fetchCryptoData_start s))"

text \<open>
  The chart object of lines 173 to 193. \<^verbatim>\<open>new Date(timestamp).toLocaleDateString()\<close>
  depends on the browser's locale and time zone: it is the parameter \<open>toLocaleDateString\<close>.
\<close>

definition chart_of_prices :: "(number \<Rightarrow> string) \<Rightarrow> ChartDataResponse \<Rightarrow> ChartData" where
  "chart_of_prices toLocaleDateString prices =
     \<lparr>labels = map (\<lambda>(timestamp, _). toLocaleDateString timestamp) prices,
      datasets =
        [\<lparr>label = ''Price'',
          data = map (\<lambda>(_, price). price) prices,
          borderColor = ''#8884d8'',
          backgroundColor = ''rgba(136, 132, 216, 0.5)'',
          borderWidth = 2,
          fill = False,
          tension = 4 / 10,
          pointRadius = 4,
          pointHoverRadius = 6\<rparr>]\<rparr>"

text \<open>\<^verbatim>\<open>fetchChartData\<close>, split at its \<^verbatim>\<open>await\<close> like \<^verbatim>\<open>fetchCryptoData\<close>.\<close>

definition fetchChartData_start :: "state \<Rightarrow> state \<times> request" where
  "fetchChartData_start s =
     (s\<lparr>message := ''''\<rparr>,
      MarketChartRequest (selectedCrypto s) (toLowerCase (selectedCurrency s)))"

definition fetchChartData_finish ::
  "(number \<Rightarrow> string) \<Rightarrow> fetch_error + ChartDataResponse \<Rightarrow> state \<Rightarrow> state" where
  "fetchChartData_finish toLocaleDateString response s =
     (case response of
        Inr prices \<Rightarrow> s\<lparr>chartData := chart_of_prices toLocaleDateString prices\<rparr>
      | Inl error \<Rightarrow> s\<lparr>message := ''Failed to load chart data.''\<rparr>)"

definition fetchChartData ::
  "(number \<Rightarrow> string) \<Rightarrow> fetch_error + ChartDataResponse \<Rightarrow> state \<Rightarrow> state" where
  "fetchChartData toLocaleDateString response s =
     fetchChartData_finish toLocaleDateString response (fst (fetchChartData_start s))"

section \<open>What the page renders\<close>

text \<open>
  The message paragraph of lines 255 to 263: nothing for the empty message, else the
  background class and the text.
\<close>

definition message_banner :: "state \<Rightarrow> (string \<times> string) option" where
  "message_banner s =
     (if message s = '''' then None
      else Some (if str_includes (message s) ''Failed'' then ''bg-red-500'' else ''bg-green-500'',
                 message s))"

text \<open>The chart panel is rendered under the condition of line 282.\<close>

definition chart_shown :: "state \<Rightarrow> bool" where
  "chart_shown s = (selectedCrypto s \<noteq> '''' \<and> length (labels (chartData s)) > 0)"

text \<open>The asset cards of lines 297 to 345: none while loading, else the filtered list.\<close>

definition cards_shown :: "state \<Rightarrow> Cryptocurrency list" where
  "cards_shown s = (if loading s then [] else filteredCryptos s)"

section \<open>Number formatting (lines 201 to 208 and 327 to 335)\<close>

text \<open>Decimal digits of a natural number, most significant first.\<close>

definition digit_char :: "nat \<Rightarrow> char" where
  "digit_char d = ''0123456789'' ! d"

fun decimal_digits :: "nat \<Rightarrow> string" where
  "decimal_digits n =
     (if n < 10 then [digit_char n] else decimal_digits (n div 10) @ [digit_char (n mod 10)])"

declare decimal_digits.simps [simp del]

text \<open>
  The integer \<open>n\<close> for which \<open>n / 10 ^ f - x\<close> is as close to zero as possible, the larger
  one when there are two: how both \<^verbatim>\<open>toFixed\<close> and \<^verbatim>\<open>Intl.NumberFormat\<close> (rounding mode
  half-expand) round a magnitude \<open>x \<ge> 0\<close> to \<open>f\<close> fraction digits. \<^verbatim>\<open>toFixed\<close> rounds the
  exact value of the number, \<^verbatim>\<open>Intl.NumberFormat\<close> its shortest decimal numeral.
\<close>

definition scaled_round :: "nat \<Rightarrow> number \<Rightarrow> nat" where
  "scaled_round f x = nat \<lfloor>x * 10 ^ f + 1 / 2\<rfloor>"







text \<open>
  The values of the type \<^verbatim>\<open>number\<close>: the finite ones by their exact value (\<open>Finite 0\<close> is
  the positive zero), the negative zero, the two infinities and \<^verbatim>\<open>NaN\<close>.
\<close>

datatype js_number = Finite number | NegativeZero | PositiveInfinity | NegativeInfinity | NaN

text \<open>
  \<^verbatim>\<open>new Intl.NumberFormat("en-US", {style: "currency", currency, minimumFractionDigits: 2,
  maximumFractionDigits: 2}).format(num)\<close>. The constructor throws a \<^verbatim>\<open>RangeError\<close> for a
  currency code that is not three ASCII letters. Else the text is a minus sign for a
  negative number and for the negative zero, then what the locale puts for the currency
  (the dollar sign for USD, the euro sign U+20AC for EUR: locale data of the platform,
  the parameter \<open>currency_symbol\<close>), then the magnitude. The magnitude of a finite
  number is printed from the shortest decimal numeral that reads back as the same
  number (the digits that \<^verbatim>\<open>Number::toString\<close> prints: the parameter \<open>shortest_decimal\<close>,
  from the exact magnitude to the value of that numeral), rounded half up to two
  fraction digits: the integer digits in groups of three separated by commas, a point,
  two fraction digits. \<open>group_thousands\<close> cuts the groups from the right;
  \<open>grouped_fixed2\<close> prints a magnitude. The magnitude of an infinity is the sign U+221E
  and \<^verbatim>\<open>NaN\<close> is printed by its name, both without a point and without fraction digits.
\<close>

datatype format_error = RangeError

definition is_ascii_letter :: "char \<Rightarrow> bool" where
  "is_ascii_letter c =
     (let n = (of_char c :: nat) in (65 \<le> n \<and> n \<le> 90) \<or> (97 \<le> n \<and> n \<le> 122))"

definition well_formed_currency_code :: "string \<Rightarrow> bool" where
  "well_formed_currency_code c = (length c = 3 \<and> list_all is_ascii_letter c)"

fun group_thousands :: "string \<Rightarrow> string" where
  "group_thousands ds =
     (if length ds \<le> 3 then ds
      else group_thousands (take (length ds - 3) ds) @ '','' @ drop (length ds - 3) ds)"

declare group_thousands.simps [simp del]

definition grouped_fixed2 :: "number \<Rightarrow> string" where
  "grouped_fixed2 x =
     (let n = scaled_round 2 x;
          integer = group_thousands (decimal_digits (n div 100));
          fraction = [digit_char (n mod 100 div 10), digit_char (n mod 10)]
      in integer @ ''.'' @ fraction)"

definition formatNumber ::
  "(string \<Rightarrow> jsstring) \<Rightarrow> (number \<Rightarrow> number) \<Rightarrow> string \<Rightarrow> js_number \<Rightarrow>
   format_error + jsstring" where
  "formatNumber currency_symbol shortest_decimal currency num =
     (if well_formed_currency_code currency
      then Inr (case num of
                  Finite x \<Rightarrow>
                    (if x < 0 then units ''-'' else []) @ currency_symbol currency @
                    units (grouped_fixed2 (shortest_decimal \<bar>x\<bar>))
                | NegativeZero \<Rightarrow>
                    units ''-'' @ currency_symbol currency @
                    units (grouped_fixed2 (shortest_decimal 0))
                | PositiveInfinity \<Rightarrow> currency_symbol currency @ [0x221E]
                | NegativeInfinity \<Rightarrow> units ''-'' @ currency_symbol currency @ [0x221E]
                | NaN \<Rightarrow> currency_symbol currency @ units ''NaN'')
      else Inl RangeError)"

text \<open>
  The three formatted lines of an asset card: lines 325, 337 and 340, on the number
  fields of a record, which are finite here. An exception of \<^verbatim>\<open>formatNumber\<close> is the
  exception of the line.
\<close>

definition card_price ::
  "(string \<Rightarrow> jsstring) \<Rightarrow> (number \<Rightarrow> number) \<Rightarrow> state \<Rightarrow> Cryptocurrency \<Rightarrow>
   format_error + jsstring" where
  "card_price currency_symbol shortest_decimal s crypto =
     formatNumber currency_symbol shortest_decimal (selectedCurrency s)
       (Finite (current_price crypto))"

definition card_market_cap ::
  "(string \<Rightarrow> jsstring) \<Rightarrow> (number \<Rightarrow> number) \<Rightarrow> state \<Rightarrow> Cryptocurrency \<Rightarrow>
   format_error + jsstring" where
  "card_market_cap currency_symbol shortest_decimal s crypto =
     (case formatNumber currency_symbol shortest_decimal (selectedCurrency s)
             (Finite (market_cap crypto)) of
        Inl error \<Rightarrow> Inl error
      | Inr formatted \<Rightarrow> Inr (units ''Market Cap: '' @ formatted))"

definition card_volume ::
  "(string \<Rightarrow> jsstring) \<Rightarrow> (number \<Rightarrow> number) \<Rightarrow> state \<Rightarrow> Cryptocurrency \<Rightarrow>
   format_error + jsstring" where
  "card_volume currency_symbol shortest_decimal s crypto =
     (case formatNumber currency_symbol shortest_decimal (selectedCurrency s)
             (Finite (total_volume crypto)) of
        Inl error \<Rightarrow> Inl error
      | Inr formatted \<Rightarrow> Inr (units ''Volume: '' @ formatted))"

text \<open>
  A text ends in exactly two fraction digits: its last four characters are a digit, the
  point and two digits. \<open>two_fraction_digits\<close> says it of a \<open>string\<close> and
  \<open>two_fraction_units\<close> of a \<open>jsstring\<close>.
\<close>

definition is_digit :: "char \<Rightarrow> bool" where
  "is_digit c = (c \<in> set ''0123456789'')"


definition is_digit_unit :: "16 word \<Rightarrow> bool" where
  "is_digit_unit c = (c \<in> set (units ''0123456789''))"

definition two_fraction_units :: "jsstring \<Rightarrow> bool" where
  "two_fraction_units t =
     (case rev t of
        d2 # d1 # p # i # _ \<Rightarrow>
          is_digit_unit d2 \<and> is_digit_unit d1 \<and> p = 0x2E \<and> is_digit_unit i
      | _ \<Rightarrow> False)"

text \<open>
  The number that the digits of a text spell, read from the left, every other character
  passed over: of \<open>3,000.00\<close> it is 300000, the amount in hundredths.
\<close>

definition digit_value :: "char \<Rightarrow> nat" where
  "digit_value c = of_char c - 48"

fun read_digits :: "nat \<Rightarrow> string \<Rightarrow> nat" where
  "read_digits v [] = v"
| "read_digits v (c # cs) = read_digits (if is_digit c then 10 * v + digit_value c else v) cs"

definition digits_value :: "string \<Rightarrow> nat" where
  "digits_value str = read_digits 0 str"

text \<open>
  The integer part of an amount is grouped by three: counted from its end, every
  fourth character is a comma and every other one a digit, and the first digit is no
  zero unless it is the only one.
\<close>

definition grouped_by_three :: "string \<Rightarrow> bool" where
  "grouped_by_three g =
     (g \<noteq> [] \<and>
      (\<forall>i \<in> {0..<length g}.
         if (length g - i) mod 4 = 0 then g ! i = CHR '','' else is_digit (g ! i)) \<and>
      (hd g = CHR ''0'' \<longrightarrow> g = ''0''))"

section \<open>Renders, effects and events\<close>

text \<open>
  The three data effects of the component run after a render, all on the state that
  was rendered, and their state updates are applied together:
  \<^item> lines 120 to 125, written without a dependency array, so after every render:
    \<^verbatim>\<open>fetchCryptoData()\<close> (and the 60 second interval is set again);
  \<^item> lines 128 to 132, written without a dependency array, so after every render:
    \<^verbatim>\<open>fetchChartData()\<close> when \<^verbatim>\<open>selectedCrypto\<close> is not empty;
  \<^item> lines 135 to 142, with the dependencies \<^verbatim>\<open>[searchQuery, cryptocurrencies]\<close>: only
    after a render in which one of the two changed (\<open>deps_changed\<close>).
  \<open>effects_pass\<close> gives the state after the updates and the requests sent, in order. No
  effect updates a variable that a later one reads, so the updates are threaded through.
  The effect of lines 98 to 117 recolours the chart options, which are no state
  variable, and is left out.
\<close>

definition effects_pass ::
  "(jsstring \<Rightarrow> jsstring) \<Rightarrow> bool \<Rightarrow> state \<Rightarrow> state \<times> request list" where
  "effects_pass lw deps_changed s =
     (let (s1, markets) = fetchCryptoData_start s;
          (s2, chart) =
            (if selectedCrypto s \<noteq> ''''
             then (let (s2, r) = fetchChartData_start s1 in (s2, [r]))
             else (s1, []));
          s3 = (if deps_changed then filter_effect lw s2 else s2)
      in (s3, markets # chart))"

text \<open>
  A state update that changes a variable renders the component again, and the effects
  run again. After a render of \<open>s\<close> the effects change \<^verbatim>\<open>loading\<close> unless it is true
  already, \<^verbatim>\<open>message\<close> unless it is empty already, and \<^verbatim>\<open>filteredCryptos\<close> (a new array)
  whenever the filter effect runs. The render that follows has the dependencies of the
  filter effect unchanged, and its effects change nothing more, so the cycle ends.
\<close>

definition render_cycle ::
  "(jsstring \<Rightarrow> jsstring) \<Rightarrow> bool \<Rightarrow> state \<Rightarrow> state \<times> request list" where
  "render_cycle lw deps_changed s =
     (let (s1, sent1) = effects_pass lw deps_changed s in
      if deps_changed \<or> \<not> loading s \<or> message s \<noteq> ''''
      then (let (s2, sent2) = effects_pass lw False s1 in (s2, sent1 @ sent2))
      else (s1, sent1))"

text \<open>
  The page and its surroundings: the state variables, the requests sent and not yet
  answered, and (not a variable of the program) the request and the response body
  from which the current \<^verbatim>\<open>chartData\<close> was built, if it was built from one.
\<close>

record world =
  view :: state
  in_flight :: "request list"
  chart_source :: "(request \<times> ChartDataResponse) option"

definition commit :: "(jsstring \<Rightarrow> jsstring) \<Rightarrow> bool \<Rightarrow> state \<Rightarrow> world \<Rightarrow> world" where
  "commit lw deps_changed s w =
     (let (s', sent) = render_cycle lw deps_changed s
      in w\<lparr>view := s', in_flight := in_flight w @ sent\<rparr>)"

text \<open>Mounting: the first render shows the initial state, and every effect runs.\<close>

definition mounted :: "(jsstring \<Rightarrow> jsstring) \<Rightarrow> world" where
  "mounted lw =
     commit lw True initial_state \<lparr>view = initial_state, in_flight = [], chart_source = None\<rparr>"

text \<open>
  What can happen to the mounted page: the four user inputs, the interval timer of
  line 123, and the answer to a request that is in flight. The selector offers the
  codes of \<^verbatim>\<open>CURRENCIES\<close> only. A card can be clicked for an asset of the filtered
  list only. (The cards are on screen while \<^verbatim>\<open>loading\<close> is false, that is in the render
  between a listing response and its effects; the click is taken after these effects
  here.)
\<close>

datatype event =
  CurrencyChosen string
  | ThemeToggled
  | QueryTyped jsstring
  | AssetClicked string
  | IntervalFired
  | MarketsSettled request "fetch_error + Cryptocurrency list"
  | MarketChartSettled request "fetch_error + ChartDataResponse"

fun is_markets :: "request \<Rightarrow> bool" where
  "is_markets (MarketsRequest _) = True"
| "is_markets (MarketChartRequest _ _) = False"

text \<open>
  One event, handled to the end: the handler's state update, the render, the effects.
  An update that sets every variable to the value it has renders nothing. A successful
  response always stores a new array or object, so it always renders. An answer to a
  request that is not in flight is no event. The argument \<open>dl\<close> is the date text of a
  timestamp, handed on to \<open>fetchChartData_finish\<close>.
\<close>

fun step :: "(jsstring \<Rightarrow> jsstring) \<Rightarrow> (number \<Rightarrow> string) \<Rightarrow> event \<Rightarrow> world \<Rightarrow> world" where
  "step lw dl (CurrencyChosen c) w =
     (if c \<in> set CURRENCIES \<and> c \<noteq> selectedCurrency (view w)
      then commit lw False (setSelectedCurrency c (view w)) w
      else w)"
| "step lw dl ThemeToggled w = commit lw False (toggleDarkMode (view w)) w"
| "step lw dl (QueryTyped q) w =
     (if q = searchQuery (view w) then w
      else commit lw True (setSearchQuery q (view w)) w)"
| "step lw dl (AssetClicked i) w =
     (if i \<in> set (map crypto_id (filteredCryptos (view w))) \<and> i \<noteq> selectedCrypto (view w)
      then commit lw False (setSelectedCrypto i (view w)) w
      else w)"
| "step lw dl IntervalFired w =
     (let (s', r) = fetchCryptoData_start (view w);
          w' = w\<lparr>in_flight := in_flight w @ [r]\<rparr>
      in if s' = view w then w' else commit lw False s' w')"
| "step lw dl (MarketsSettled r response) w =
     (if r \<in> set (in_flight w) \<and> is_markets r
      then (let s' = fetchCryptoData_finish response (view w);
                w' = w\<lparr>in_flight := remove1 r (in_flight w)\<rparr>
            in if isl response \<and> s' = view w then w' else commit lw (\<not> isl response) s' w')
      else w)"
| "step lw dl (MarketChartSettled r response) w =
     (if r \<in> set (in_flight w) \<and> \<not> is_markets r
      then (let s' = fetchChartData_finish dl response (view w);
                w' = w\<lparr>in_flight := remove1 r (in_flight w),
                       chart_source := (case response of Inr prices \<Rightarrow> Some (r, prices)
                                        | Inl error \<Rightarrow> chart_source w)\<rparr>
            in if isl response \<and> s' = view w then w' else commit lw False s' w')
      else w)"

fun run :: "(jsstring \<Rightarrow> jsstring) \<Rightarrow> (number \<Rightarrow> string) \<Rightarrow> event list \<Rightarrow> world \<Rightarrow> world" where
  "run lw dl [] w = w"
| "run lw dl (e # es) w = run lw dl es (step lw dl e w)"

definition reachable :: "(jsstring \<Rightarrow> jsstring) \<Rightarrow> (number \<Rightarrow> string) \<Rightarrow> world \<Rightarrow> bool" where
  "reachable lw dl w = (\<exists>es. w = run lw dl es (mounted lw))"

text \<open>
  The worlds above are the page at rest, after the effects that follow an event have
  run. Before that React renders the state that the event's handler left, and this is
  on screen until the effects have run: \<open>first_render\<close>. For an event that \<open>step\<close>
  does not take it is the state as it was. The states that are ever on screen are the
  initial state, \<open>first_render\<close> of an event in a reachable world, and the view of a
  reachable world.
\<close>

fun first_render :: "(number \<Rightarrow> string) \<Rightarrow> event \<Rightarrow> world \<Rightarrow> state" where
  "first_render dl (CurrencyChosen c) w =
     (if c \<in> set CURRENCIES then setSelectedCurrency c (view w) else view w)"
| "first_render dl ThemeToggled w = toggleDarkMode (view w)"
| "first_render dl (QueryTyped q) w = setSearchQuery q (view w)"
| "first_render dl (AssetClicked i) w =
     (if i \<in> set (map crypto_id (filteredCryptos (view w)))
      then setSelectedCrypto i (view w)
      else view w)"
| "first_render dl IntervalFired w = fst (fetchCryptoData_start (view w))"
| "first_render dl (MarketsSettled r response) w =
     (if r \<in> set (in_flight w) \<and> is_markets r
      then fetchCryptoData_finish response (view w)
      else view w)"
| "first_render dl (MarketChartSettled r response) w =
     (if r \<in> set (in_flight w) \<and> \<not> is_markets r
      then fetchChartData_finish dl response (view w)
      else view w)"

text \<open>The requests for a price history among a list of requests.\<close>

definition history_requests :: "request list \<Rightarrow> request list" where
  "history_requests rs = filter (\<lambda>r. \<not> is_markets r) rs"

section \<open>Properties named by the specification\<close>

text \<open>
  The specification's wording of the search: a record is kept when its name or its
  symbol contains the query as a substring, letter case ignored. Two texts are the
  same up to letter case when lowering gives the same text; \<open>contains_ignoring_case\<close>
  asks for a contiguous part of \<open>s\<close> that is the query up to letter case.
\<close>

definition same_ignoring_case :: "(jsstring \<Rightarrow> jsstring) \<Rightarrow> jsstring \<Rightarrow> jsstring \<Rightarrow> bool" where
  "same_ignoring_case lw t q = (lw t = lw q)"

definition contains_ignoring_case :: "(jsstring \<Rightarrow> jsstring) \<Rightarrow> jsstring \<Rightarrow> jsstring \<Rightarrow> bool" where
  "contains_ignoring_case lw s q =
     (\<exists>before t after. s = before @ t @ after \<and> same_ignoring_case lw t q)"

definition spec_filtered ::
  "(jsstring \<Rightarrow> jsstring) \<Rightarrow> jsstring \<Rightarrow> Cryptocurrency list \<Rightarrow> Cryptocurrency list" where
  "spec_filtered lw q cs =
     filter (\<lambda>c. contains_ignoring_case lw (name c) q \<or> contains_ignoring_case lw (symbol c) q) cs"

text \<open>
  A lowering works unit by unit on the texts over a set of code units when it lowers
  each of them one code unit at a time, as \<^verbatim>\<open>toLowerCase\<close> does below U+0100. The texts
  of a search are the query, the names and the symbols.
\<close>

definition unit_by_unit :: "(jsstring \<Rightarrow> jsstring) \<Rightarrow> 16 word set \<Rightarrow> bool" where
  "unit_by_unit lw D = (\<exists>f. \<forall>t. set t \<subseteq> D \<longrightarrow> lw t = map f t)"

definition search_units :: "jsstring \<Rightarrow> Cryptocurrency list \<Rightarrow> 16 word set" where
  "search_units q cs = set q \<union> (\<Union>c \<in> set cs. set (name c) \<union> set (symbol c))"

text \<open>
  The chart on display belongs to the selection: it was built from the answer to a
  request for the asset and the currency that are selected now.
\<close>

definition chart_matches_selection :: "world \<Rightarrow> bool" where
  "chart_matches_selection w =
     (case chart_source w of
        None \<Rightarrow> False
      | Some (r, prices) \<Rightarrow>
          r = MarketChartRequest (selectedCrypto (view w))
                (toLowerCase (selectedCurrency (view w))))"

text \<open>
  Three properties of a world that every event keeps: the filtered list is the filter
  of the current query over the current asset set, the chart is the one built from the
  recorded response (the empty initial chart when there is none), and the selected
  currency is one of the selector's.
\<close>

definition filter_current :: "(jsstring \<Rightarrow> jsstring) \<Rightarrow> state \<Rightarrow> bool" where
  "filter_current lw s = (filteredCryptos s = filtered lw (searchQuery s) (cryptocurrencies s))"

definition chart_from_source :: "(number \<Rightarrow> string) \<Rightarrow> world \<Rightarrow> bool" where
  "chart_from_source dl w =
     (chartData (view w) =
        (case chart_source w of
           None \<Rightarrow> \<lparr>labels = [], datasets = []\<rparr>
         | Some (r, prices) \<Rightarrow> chart_of_prices dl prices))"

definition currency_supported :: "state \<Rightarrow> bool" where
  "currency_supported s = (selectedCurrency s \<in> set CURRENCIES)"

text \<open>The records and the inputs of the specification's scenarios.\<close>

definition bitcoin :: Cryptocurrency where
  "bitcoin =
     \<lparr>crypto_id = ''bitcoin'', symbol = units ''btc'', name = units ''Bitcoin'',
      current_price = 50000,
      price_change_percentage_24h = 123 / 100, market_cap = 980000000000,
      total_volume = 30000000000, image_uri = ''https://example.org/bitcoin.png''\<rparr>"

definition ethereum :: Cryptocurrency where
  "ethereum =
     \<lparr>crypto_id = ''ethereum'', symbol = units ''eth'', name = units ''Ethereum'',
      current_price = 3000,
      price_change_percentage_24h = - (1 / 2), market_cap = 360000000000,
      total_volume = 15000000000, image_uri = ''https://example.org/ethereum.png''\<rparr>"

text \<open>
  What the locale en-US puts for the four currencies of the selector: the dollar sign,
  the euro sign, the pound sign and the yen sign. (Another code is not asked for by the
  page; it stands for itself here, with a no-break space.) The amounts of the
  scenarios are whole numbers, and the shortest decimal numeral of such a number is the
  number itself.
\<close>

definition en_US_symbol :: "string \<Rightarrow> jsstring" where
  "en_US_symbol currency =
     (if currency = ''USD'' then [0x24]
      else if currency = ''EUR'' then [0x20AC]
      else if currency = ''GBP'' then [0xA3]
      else if currency = ''JPY'' then [0xA5]
      else units currency @ [0xA0])"

definition whole_amount :: "number \<Rightarrow> number" where
  "whole_amount x = x"

text \<open>
  A record whose name is a capital A and a capital sigma, the query that is the
  capital sigma alone, and two answers to the listing request of the mounted page.
\<close>

definition alpha_sigma :: Cryptocurrency where
  "alpha_sigma =
     \<lparr>crypto_id = ''alpha-sigma'', symbol = units ''as'', name = [0x41, 0x3A3],
      current_price = 1, price_change_percentage_24h = 0, market_cap = 1000,
      total_volume = 10, image_uri = ''https://example.org/alpha-sigma.png''\<rparr>"

definition sigma_query :: jsstring where
  "sigma_query = [0x3A3]"

definition first_listing :: event where
  "first_listing = MarketsSettled (MarketsRequest ''usd'') (Inr [bitcoin])"

definition second_listing :: event where
  "second_listing = MarketsSettled (MarketsRequest ''usd'') (Inr [ethereum])"

definition whole_listing :: event where
  "whole_listing = MarketsSettled (MarketsRequest ''usd'') (Inr [bitcoin, ethereum])"

definition day_label :: "number \<Rightarrow> string" where
  "day_label timestamp = ''day '' @ decimal_digits (nat \<lfloor>timestamp / 86400000\<rfloor>)"

definition week_of_prices :: ChartDataResponse where
  "week_of_prices =
     [(1700006400000, 36000), (1700092800000, 36500), (1700179200000, 37000),
      (1700265600000, 36800), (1700352000000, 37200), (1700438400000, 37500),
      (1700524800000, 37400)]"


section \<open>The search\<close>

lemma starts_with_prefix: "starts_with s q = prefix q s"
  by (induction s q rule: starts_with.induct) auto

lemma str_includes_sublist: "str_includes s q = sublist q s"
  by (induction s) (auto simp: starts_with_prefix sublist_Cons_right)

lemma array_filter_filter: "array_filter p xs = filter p xs"
  by (induction xs) auto

lemma includes_parts: "str_includes s q = (\<exists>before after. s = before @ q @ after)"
  by (simp add: str_includes_sublist sublist_def)

lemma crypto_matches_parts:
  "crypto_matches lw q =
     (\<lambda>c. (\<exists>before after. lw (name c) = before @ lw q @ after) \<or>
          (\<exists>before after. lw (symbol c) = before @ lw q @ after))"
  by (rule ext) (simp add: crypto_matches_def includes_parts)

lemma filtered_parts:
  "filtered lw q cs =
     filter (\<lambda>c. (\<exists>before after. lw (name c) = before @ lw q @ after) \<or>
                 (\<exists>before after. lw (symbol c) = before @ lw q @ after)) cs"
  by (simp add: filtered_def array_filter_filter crypto_matches_parts)

lemma includes_unit_by_unit:
  assumes u: "\<And>t. set t \<subseteq> D \<Longrightarrow> lw t = map f t"
    and s: "set s \<subseteq> D" and q: "set q \<subseteq> D"
  shows "str_includes (lw s) (lw q) = contains_ignoring_case lw s q"
proof
  assume "str_includes (lw s) (lw q)"
  then obtain ps ss where e: "map f s = ps @ map f q @ ss"
    using u[OF s] u[OF q] by (auto simp: includes_parts)
  from map_eq_append_conv[THEN iffD1, OF e] obtain b r where s1: "s = b @ r"
    and r: "map f q @ ss = map f r"
    by blast
  from append_eq_map_conv[THEN iffD1, OF r] obtain t a where s2: "r = t @ a"
    and t: "map f q = map f t"
    by blast
  have "set t \<subseteq> D"
    using s s1 s2 by auto
  then have "lw t = lw q"
    using u[of t] u[OF q] t by simp
  then show "contains_ignoring_case lw s q"
    unfolding contains_ignoring_case_def same_ignoring_case_def
    using s1 s2 by blast
next
  assume "contains_ignoring_case lw s q"
  then obtain b t a where p: "s = b @ t @ a" and l: "lw t = lw q"
    unfolding contains_ignoring_case_def same_ignoring_case_def by blast
  have "set t \<subseteq> D"
    using s p by auto
  then have "map f t = lw q"
    using u[of t] l by simp
  then have "lw s = map f b @ lw q @ map f a"
    using u[OF s] p by simp
  then show "str_includes (lw s) (lw q)"
    unfolding includes_parts by blast
qed

lemma filtered_spec:
  assumes "unit_by_unit lw (search_units q cs)"
  shows "filtered lw q cs = spec_filtered lw q cs"
proof -
  from assms obtain f where u: "\<And>t. set t \<subseteq> search_units q cs \<Longrightarrow> lw t = map f t"
    unfolding unit_by_unit_def by blast
  have q: "set q \<subseteq> search_units q cs"
    by (auto simp: search_units_def)
  have "crypto_matches lw q c =
          (contains_ignoring_case lw (name c) q \<or> contains_ignoring_case lw (symbol c) q)"
    if "c \<in> set cs" for c
  proof -
    have "set (name c) \<subseteq> search_units q cs" "set (symbol c) \<subseteq> search_units q cs"
      using that by (auto simp: search_units_def)
    then show ?thesis
      using includes_unit_by_unit[of "search_units q cs" lw f, OF u _ q]
      by (simp add: crypto_matches_def)
  qed
  then show ?thesis
    unfolding filtered_def spec_filtered_def array_filter_filter
    by (intro filter_cong) simp_all
qed

lemma lower_units_unit_by_unit: "unit_by_unit lower_units D"
  unfolding unit_by_unit_def lower_units_def by blast

section \<open>Effects, renders and events keep the filtered list current\<close>

lemma effects_pass_view:
  "searchQuery (fst (effects_pass lw d s)) = searchQuery s"
  "cryptocurrencies (fst (effects_pass lw d s)) = cryptocurrencies s"
  "chartData (fst (effects_pass lw d s)) = chartData s"
  "selectedCrypto (fst (effects_pass lw d s)) = selectedCrypto s"
  "selectedCurrency (fst (effects_pass lw d s)) = selectedCurrency s"
  "loading (fst (effects_pass lw d s))"
  "message (fst (effects_pass lw d s)) = ''''"
  "filteredCryptos (fst (effects_pass lw d s)) =
     (if d then filtered lw (searchQuery s) (cryptocurrencies s) else filteredCryptos s)"
  by (simp_all add: effects_pass_def fetchCryptoData_start_def fetchChartData_start_def
      filter_effect_def split_def Let_def)

lemma effects_pass_sent:
  "snd (effects_pass lw d s) =
     MarketsRequest (toLowerCase (selectedCurrency s)) #
     (if selectedCrypto s \<noteq> ''''
      then [MarketChartRequest (selectedCrypto s) (toLowerCase (selectedCurrency s))] else [])"
  by (simp add: effects_pass_def fetchCryptoData_start_def fetchChartData_start_def
      split_def Let_def)

lemma effects_pass_settled:
  "loading s \<Longrightarrow> message s = '''' \<Longrightarrow> fst (effects_pass lw False s) = s"
  by (simp add: effects_pass_def fetchCryptoData_start_def fetchChartData_start_def
      split_def Let_def)

lemma render_cycle_view:
  "searchQuery (fst (render_cycle lw d s)) = searchQuery s"
  "cryptocurrencies (fst (render_cycle lw d s)) = cryptocurrencies s"
  "chartData (fst (render_cycle lw d s)) = chartData s"
  "selectedCrypto (fst (render_cycle lw d s)) = selectedCrypto s"
  "selectedCurrency (fst (render_cycle lw d s)) = selectedCurrency s"
  "loading (fst (render_cycle lw d s))"
  "message (fst (render_cycle lw d s)) = ''''"
  "filteredCryptos (fst (render_cycle lw d s)) =
     (if d then filtered lw (searchQuery s) (cryptocurrencies s) else filteredCryptos s)"
  by (simp_all add: render_cycle_def split_def Let_def effects_pass_view)

lemma commit_view:
  "view (commit lw d s w) = fst (render_cycle lw d s)"
  "chart_source (commit lw d s w) = chart_source w"
  "in_flight (commit lw d s w) = in_flight w @ snd (render_cycle lw d s)"
  by (simp_all add: commit_def split_def Let_def)

lemma filter_current_commit:
  "d \<or> (filteredCryptos s = filtered lw (searchQuery s) (cryptocurrencies s)) \<Longrightarrow>
   filter_current lw (view (commit lw d s w))"
  by (auto simp: filter_current_def commit_view render_cycle_view)

lemma filter_current_step: "filter_current lw (view w) \<Longrightarrow> filter_current lw (view (step lw dl e w))"
proof (cases e)
  case (MarketsSettled r response)
  assume a: "filter_current lw (view w)"
  show ?thesis
  proof (cases response)
    case (Inl err)
    with a MarketsSettled show ?thesis
      by (auto simp: Let_def fetchCryptoData_finish_def filter_current_def
          intro!: filter_current_commit[unfolded filter_current_def])
  next
    case (Inr d)
    with a MarketsSettled show ?thesis
      by (auto simp: Let_def intro!: filter_current_commit)
  qed
next
  case (MarketChartSettled r response)
  assume a: "filter_current lw (view w)"
  with MarketChartSettled show ?thesis
    by (cases response)
       (auto simp: Let_def fetchChartData_finish_def filter_current_def
          intro!: filter_current_commit[unfolded filter_current_def])
next
  case IntervalFired
  assume a: "filter_current lw (view w)"
  have "filter_current lw (view (commit lw False (fst (fetchCryptoData_start (view w))) w'))" for w'
    using a by (intro filter_current_commit)
      (simp add: filter_current_def fetchCryptoData_start_def)
  with a IntervalFired show ?thesis
    by (auto simp: Let_def split_def)
qed (auto simp: filter_current_def setSelectedCurrency_def toggleDarkMode_def
      setSearchQuery_def setSelectedCrypto_def
      intro!: filter_current_commit[unfolded filter_current_def])

lemma filter_current_run:
  "filter_current lw (view w) \<Longrightarrow> filter_current lw (view (run lw dl es w))"
  by (induction es arbitrary: w) (auto intro: filter_current_step)

lemma filter_current_mounted: "filter_current lw (view (mounted lw))"
  unfolding mounted_def by (rule filter_current_commit) simp

lemma filter_current_reachable: "reachable lw dl w \<Longrightarrow> filter_current lw (view w)"
  by (auto simp: reachable_def intro: filter_current_run filter_current_mounted)

lemma str_includes_empty: "str_includes s []"
  by (cases s) auto

lemma filtered_empty_query: "lw [] = [] \<Longrightarrow> filtered lw [] cs = cs"
  by (induction cs)
     (auto simp: filtered_def crypto_matches_def str_includes_empty)

lemma subseq_filtered: "subseq (filtered lw q cs) cs"
  by (simp add: filtered_def array_filter_filter)

section \<open>The listing fetch\<close>

lemma includes_failed_listing:
  "str_includes ''Failed to fetch cryptocurrency data. Please try again later.'' ''Failed''"
  by code_simp

lemma includes_failed_chart: "str_includes ''Failed to load chart data.'' ''Failed''"
  by code_simp

lemma not_includes_failed_ok: "\<not> str_includes ''Data fetched successfully!'' ''Failed''"
  by code_simp

lemma banner_listing_failed:
  "message s = ''Failed to fetch cryptocurrency data. Please try again later.'' \<Longrightarrow>
   message_banner s
     = Some (''bg-red-500'', ''Failed to fetch cryptocurrency data. Please try again later.'')"
  unfolding message_banner_def by (simp only: includes_failed_listing if_True) simp

lemma banner_listing_ok:
  "message s = ''Data fetched successfully!'' \<Longrightarrow>
   message_banner s = Some (''bg-green-500'', ''Data fetched successfully!'')"
  unfolding message_banner_def by (simp only: not_includes_failed_ok if_False) simp

lemma banner_chart_failed:
  "message s = ''Failed to load chart data.'' \<Longrightarrow>
   message_banner s = Some (''bg-red-500'', ''Failed to load chart data.'')"
  unfolding message_banner_def by (simp only: includes_failed_chart if_True) simp

lemma step_markets_failed_assets:
  "cryptocurrencies (view (step lw dl (MarketsSettled r (Inl e)) w)) = cryptocurrencies (view w)"
  "filteredCryptos (view (step lw dl (MarketsSettled r (Inl e)) w)) = filteredCryptos (view w)"
  by (simp_all add: Let_def commit_view render_cycle_view fetchCryptoData_finish_def)

text \<open>
  C2: a listing fetch that fails leaves the asset set as it was, through the whole call
  and whatever the state was when the request settled (no record is added, dropped or
  changed, and the filtered list stays too), and sets the failure message, which the
  page renders as the red banner. The event of a failed response leaves the asset set
  of the page unchanged as well.
\<close>

theorem failed_listing_keeps_assets:
  "cryptocurrencies (fst (fetchCryptoData_start s)) = cryptocurrencies s \<and>
   cryptocurrencies (fetchCryptoData_finish (Inl e) s) = cryptocurrencies s \<and>
   filteredCryptos (fetchCryptoData_finish (Inl e) s) = filteredCryptos s \<and>
   cryptocurrencies (fetchCryptoData (Inl e) s) = cryptocurrencies s \<and>
   message (fetchCryptoData (Inl e) s)
     = ''Failed to fetch cryptocurrency data. Please try again later.'' \<and>
   message_banner (fetchCryptoData_finish (Inl e) s)
     = Some (''bg-red-500'', ''Failed to fetch cryptocurrency data. Please try again later.'') \<and>
   message_banner (fetchCryptoData (Inl e) s)
     = Some (''bg-red-500'', ''Failed to fetch cryptocurrency data. Please try again later.'') \<and>
   cryptocurrencies (view (step lw dl (MarketsSettled r (Inl e)) w)) = cryptocurrencies (view w) \<and>
   filteredCryptos (view (step lw dl (MarketsSettled r (Inl e)) w)) = filteredCryptos (view w)"
proof -
  have m1: "message (fetchCryptoData_finish (Inl e) s)
     = ''Failed to fetch cryptocurrency data. Please try again later.''"
    by (simp add: fetchCryptoData_finish_def)
  have m2: "message (fetchCryptoData (Inl e) s)
     = ''Failed to fetch cryptocurrency data. Please try again later.''"
    by (simp add: fetchCryptoData_def fetchCryptoData_finish_def)
  have k: "cryptocurrencies (fst (fetchCryptoData_start s)) = cryptocurrencies s"
    "cryptocurrencies (fetchCryptoData_finish (Inl e) s) = cryptocurrencies s"
    "filteredCryptos (fetchCryptoData_finish (Inl e) s) = filteredCryptos s"
    "cryptocurrencies (fetchCryptoData (Inl e) s) = cryptocurrencies s"
    by (simp_all add: fetchCryptoData_def fetchCryptoData_start_def fetchCryptoData_finish_def)
  show ?thesis
    by (intro conjI k m2 banner_listing_failed[OF m1] banner_listing_failed[OF m2]
        step_markets_failed_assets)
qed

text \<open>
  C3: a listing fetch that succeeds stores the records of the response as the asset
  set, whatever the set and the message were before: the old set is replaced, not
  merged. The call empties the message at its start and ends with the success message,
  which the page renders as the green banner. Choosing another fiat currency sends a
  listing request for it, and when a listing request in flight is answered with
  records, the asset set of the page is these records and the filtered list is their
  filter.
\<close>

theorem successful_listing_replaces_assets:
  "cryptocurrencies (fetchCryptoData_finish (Inr response_data) s) = response_data \<and>
   cryptocurrencies (fetchCryptoData (Inr response_data) s) = response_data \<and>
   set (cryptocurrencies (fetchCryptoData (Inr response_data) s)) = set response_data \<and>
   message (fst (fetchCryptoData_start s)) = '''' \<and>
   message (fetchCryptoData (Inr response_data) s) = ''Data fetched successfully!'' \<and>
   message_banner (fetchCryptoData_finish (Inr response_data) s)
     = Some (''bg-green-500'', ''Data fetched successfully!'') \<and>
   message_banner (fetchCryptoData (Inr response_data) s)
     = Some (''bg-green-500'', ''Data fetched successfully!'') \<and>
   (c \<in> set CURRENCIES \<and> c \<noteq> selectedCurrency (view w) \<longrightarrow>
      MarketsRequest (toLowerCase c) \<in> set (in_flight (step lw dl (CurrencyChosen c) w))) \<and>
   (r \<in> set (in_flight w) \<and> is_markets r \<longrightarrow>
      cryptocurrencies (view (step lw dl (MarketsSettled r (Inr response_data)) w)) = response_data \<and>
      filteredCryptos (view (step lw dl (MarketsSettled r (Inr response_data)) w))
        = filtered lw (searchQuery (view w)) response_data)"
proof -
  have a: "MarketsRequest (toLowerCase c) \<in> set (in_flight (step lw dl (CurrencyChosen c) w))"
    if "c \<in> set CURRENCIES \<and> c \<noteq> selectedCurrency (view w)"
    using that
    by (simp add: commit_view render_cycle_def split_def Let_def effects_pass_sent
        effects_pass_view setSelectedCurrency_def)
  have b: "cryptocurrencies (view (step lw dl (MarketsSettled r (Inr response_data)) w)) = response_data \<and>
      filteredCryptos (view (step lw dl (MarketsSettled r (Inr response_data)) w))
        = filtered lw (searchQuery (view w)) response_data"
    if "r \<in> set (in_flight w) \<and> is_markets r"
    using that
    by (simp add: Let_def commit_view render_cycle_view fetchCryptoData_finish_def)
  have m1: "message (fetchCryptoData_finish (Inr response_data) s) = ''Data fetched successfully!''"
    by (simp add: fetchCryptoData_finish_def)
  have m2: "message (fetchCryptoData (Inr response_data) s) = ''Data fetched successfully!''"
    by (simp add: fetchCryptoData_def fetchCryptoData_finish_def)
  have k: "cryptocurrencies (fetchCryptoData_finish (Inr response_data) s) = response_data"
    "cryptocurrencies (fetchCryptoData (Inr response_data) s) = response_data"
    "set (cryptocurrencies (fetchCryptoData (Inr response_data) s)) = set response_data"
    "message (fst (fetchCryptoData_start s)) = ''''"
    by (simp_all add: fetchCryptoData_def fetchCryptoData_start_def fetchCryptoData_finish_def)
  have ab: "(c \<in> set CURRENCIES \<and> c \<noteq> selectedCurrency (view w) \<longrightarrow>
      MarketsRequest (toLowerCase c) \<in> set (in_flight (step lw dl (CurrencyChosen c) w)))"
    "(r \<in> set (in_flight w) \<and> is_markets r \<longrightarrow>
      cryptocurrencies (view (step lw dl (MarketsSettled r (Inr response_data)) w)) = response_data \<and>
      filteredCryptos (view (step lw dl (MarketsSettled r (Inr response_data)) w))
        = filtered lw (searchQuery (view w)) response_data)"
    using a b by blast+
  show ?thesis
    by (intro conjI k m2 banner_listing_ok[OF m1] banner_listing_ok[OF m2] ab)
qed

theorem successful_listing_replaces_assets_witness:
  "''EUR'' \<in> set CURRENCIES \<and>
   ''EUR'' \<noteq> selectedCurrency (view (mounted lower_units)) \<and>
   MarketsRequest ''eur'' \<in> set (in_flight (step lower_units day_label (CurrencyChosen ''EUR'') (mounted lower_units))) \<and>
   is_markets (MarketsRequest ''eur'') \<and>
   cryptocurrencies
     (view (step lower_units day_label (MarketsSettled (MarketsRequest ''eur'') (Inr [bitcoin, ethereum]))
        (step lower_units day_label (CurrencyChosen ''EUR'') (mounted lower_units)))) = [bitcoin, ethereum]"
proof -
  have c: "''EUR'' \<in> set CURRENCIES \<and> ''EUR'' \<noteq> selectedCurrency (view (mounted lower_units))"
    by code_simp
  have l: "toLowerCase ''EUR'' = ''eur''"
    by code_simp
  from successful_listing_replaces_assets[where response_data = "[bitcoin, ethereum]"
      and s = initial_state and c = "''EUR''" and w = "mounted lower_units"
      and lw = lower_units and dl = day_label and r = "MarketsRequest ''eur''"] c
  have "MarketsRequest (toLowerCase ''EUR'')
      \<in> set (in_flight (step lower_units day_label (CurrencyChosen ''EUR'') (mounted lower_units)))"
    by blast
  then have i: "MarketsRequest ''eur''
      \<in> set (in_flight (step lower_units day_label (CurrencyChosen ''EUR'') (mounted lower_units)))"
    unfolding l .
  have m: "is_markets (MarketsRequest ''eur'')"
    by simp
  from successful_listing_replaces_assets[where response_data = "[bitcoin, ethereum]"
      and s = initial_state and c = "''EUR''"
      and w = "step lower_units day_label (CurrencyChosen ''EUR'') (mounted lower_units)"
      and lw = lower_units and dl = day_label and r = "MarketsRequest ''eur''"] i m
  have "cryptocurrencies
     (view (step lower_units day_label (MarketsSettled (MarketsRequest ''eur'') (Inr [bitcoin, ethereum]))
        (step lower_units day_label (CurrencyChosen ''EUR'') (mounted lower_units)))) = [bitcoin, ethereum]"
    by blast
  with c i m show ?thesis by blast
qed

section \<open>The history fetch\<close>

lemma step_chart_failed:
  "chartData (view (step lw dl (MarketChartSettled r (Inl e)) w)) = chartData (view w)"
  "chart_source (step lw dl (MarketChartSettled r (Inl e)) w) = chart_source w"
  by (simp_all add: Let_def commit_view render_cycle_view fetchChartData_finish_def)

text \<open>
  C4: a history fetch that fails leaves the chart series as it was, through the whole
  call and whatever the state was when the request settled; on the initial state that
  is the empty chart. It sets the failure message, which the page renders as the red
  banner. The event of a failed response leaves the chart of the page unchanged.
\<close>

theorem failed_history_keeps_chart:
  "chartData (fst (fetchChartData_start s)) = chartData s \<and>
   chartData (fetchChartData_finish dl (Inl e) s) = chartData s \<and>
   chartData (fetchChartData dl (Inl e) s) = chartData s \<and>
   chartData (fetchChartData dl (Inl e) initial_state) = \<lparr>labels = [], datasets = []\<rparr> \<and>
   chart_shown (fetchChartData dl (Inl e) s) = chart_shown s \<and>
   message (fetchChartData dl (Inl e) s) = ''Failed to load chart data.'' \<and>
   message_banner (fetchChartData_finish dl (Inl e) s)
     = Some (''bg-red-500'', ''Failed to load chart data.'') \<and>
   message_banner (fetchChartData dl (Inl e) s)
     = Some (''bg-red-500'', ''Failed to load chart data.'') \<and>
   chartData (view (step lw dl (MarketChartSettled r (Inl e)) w)) = chartData (view w)"
proof -
  have m1: "message (fetchChartData_finish dl (Inl e) s) = ''Failed to load chart data.''"
    by (simp add: fetchChartData_finish_def)
  have m2: "message (fetchChartData dl (Inl e) s) = ''Failed to load chart data.''"
    by (simp add: fetchChartData_def fetchChartData_finish_def)
  have k: "chartData (fst (fetchChartData_start s)) = chartData s"
    "chartData (fetchChartData_finish dl (Inl e) s) = chartData s"
    "chartData (fetchChartData dl (Inl e) s) = chartData s"
    "chartData (fetchChartData dl (Inl e) initial_state) = \<lparr>labels = [], datasets = []\<rparr>"
    "chart_shown (fetchChartData dl (Inl e) s) = chart_shown s"
    by (simp_all add: fetchChartData_def fetchChartData_start_def fetchChartData_finish_def
        initial_state_def chart_shown_def)
  show ?thesis
    by (intro conjI k m2 banner_chart_failed[OF m1] banner_chart_failed[OF m2]
        step_chart_failed)
qed

text \<open>
  C9: a history response of \<open>n\<close> (timestamp, price) pairs gives a chart with \<open>n\<close> labels
  and one dataset of \<open>n\<close> values, in the order of the response: label \<open>i\<close> is the date
  text of timestamp \<open>i\<close> and value \<open>i\<close> is price \<open>i\<close>.
\<close>

theorem chart_series_of_response:
  "length (labels (chartData (fetchChartData_finish dl (Inr prices) s))) = length prices \<and>
   map data (datasets (chartData (fetchChartData_finish dl (Inr prices) s))) = [map snd prices] \<and>
   labels (chartData (fetchChartData_finish dl (Inr prices) s)) = map (\<lambda>p. dl (fst p)) prices \<and>
   chartData (fetchChartData dl (Inr prices) s) = chartData (fetchChartData_finish dl (Inr prices) s) \<and>
   (\<forall>ds \<in> set (datasets (chartData (fetchChartData_finish dl (Inr prices) s))).
      length (data ds) = length (labels (chartData (fetchChartData_finish dl (Inr prices) s))) \<and>
      (\<forall>i < length prices.
         labels (chartData (fetchChartData_finish dl (Inr prices) s)) ! i = dl (fst (prices ! i)) \<and>
         data ds ! i = snd (prices ! i)))"
  by (simp add: fetchChartData_def fetchChartData_start_def fetchChartData_finish_def
      chart_of_prices_def split_def)

theorem chart_series_of_response_witness:
  "length week_of_prices = 7 \<and>
   length (labels (chartData (fetchChartData_finish day_label (Inr week_of_prices) initial_state))) = 7 \<and>
   map data (datasets (chartData (fetchChartData_finish day_label (Inr week_of_prices) initial_state)))
     = [[36000, 36500, 37000, 36800, 37200, 37500, 37400]] \<and>
   labels (chartData (fetchChartData_finish day_label (Inr week_of_prices) initial_state)) ! 6
     = day_label 1700524800000"
proof -
  let ?c = "chartData (fetchChartData_finish day_label (Inr week_of_prices) initial_state)"
  have n: "length week_of_prices = 7"
    by (simp add: week_of_prices_def)
  have p: "map snd week_of_prices = [36000, 36500, 37000, 36800, 37200, 37500, 37400]"
    by (simp add: week_of_prices_def)
  have d: "fst (week_of_prices ! 6) = 1700524800000"
    by (simp add: week_of_prices_def)
  have ds: "\<lparr>label = ''Price'', data = map snd week_of_prices, borderColor = ''#8884d8'',
       backgroundColor = ''rgba(136, 132, 216, 0.5)'', borderWidth = 2, fill = False,
       tension = 4 / 10, pointRadius = 4, pointHoverRadius = 6\<rparr> \<in> set (datasets ?c)"
    by (simp add: fetchChartData_finish_def chart_of_prices_def split_def)
  note t = chart_series_of_response[of day_label week_of_prices initial_state]
  from t have a: "length (labels ?c) = length week_of_prices"
    by blast
  from t have b: "map data (datasets ?c) = [map snd week_of_prices]"
    by blast
  from t have "\<forall>ds \<in> set (datasets ?c). \<forall>i < length week_of_prices.
      labels ?c ! i = day_label (fst (week_of_prices ! i))"
    by blast
  with ds have "\<forall>i < length week_of_prices. labels ?c ! i = day_label (fst (week_of_prices ! i))"
    by blast
  with n have c: "labels ?c ! 6 = day_label (fst (week_of_prices ! 6))"
    by simp
  show ?thesis
    using a b c unfolding n p d by blast
qed

section \<open>Which chart is on display\<close>

lemma render_cycle_sent:
  "snd (render_cycle lw d s) =
     (let sent = MarketsRequest (toLowerCase (selectedCurrency s)) #
                 (if selectedCrypto s \<noteq> ''''
                  then [MarketChartRequest (selectedCrypto s) (toLowerCase (selectedCurrency s))]
                  else [])
      in if d \<or> \<not> loading s \<or> message s \<noteq> '''' then sent @ sent else sent)"
  by (simp add: render_cycle_def split_def Let_def effects_pass_sent effects_pass_view)

lemma step_currency:
  "chartData (view (step lw dl (CurrencyChosen c) w)) = chartData (view w)"
  "chart_source (step lw dl (CurrencyChosen c) w) = chart_source w"
  "selectedCrypto (view (step lw dl (CurrencyChosen c) w)) = selectedCrypto (view w)"
  "c \<in> set CURRENCIES \<Longrightarrow> selectedCurrency (view (step lw dl (CurrencyChosen c) w)) = c"
  by (auto simp: commit_view render_cycle_view setSelectedCurrency_def)

lemma step_asset:
  "chartData (view (step lw dl (AssetClicked i) w)) = chartData (view w)"
  "chart_source (step lw dl (AssetClicked i) w) = chart_source w"
  "selectedCurrency (view (step lw dl (AssetClicked i) w)) = selectedCurrency (view w)"
  by (simp_all add: commit_view render_cycle_view setSelectedCrypto_def)

lemma step_chart_ok:
  assumes "r \<in> set (in_flight w)" "\<not> is_markets r"
  shows "chartData (view (step lw dl (MarketChartSettled r (Inr prices)) w)) = chart_of_prices dl prices"
    and "chart_source (step lw dl (MarketChartSettled r (Inr prices)) w) = Some (r, prices)"
    and "selectedCurrency (view (step lw dl (MarketChartSettled r (Inr prices)) w))
           = selectedCurrency (view w)"
    and "selectedCrypto (view (step lw dl (MarketChartSettled r (Inr prices)) w))
           = selectedCrypto (view w)"
  using assms
  by (simp_all add: Let_def commit_view render_cycle_view fetchChartData_finish_def)

lemma chart_from_source_step:
  "chart_from_source dl w \<Longrightarrow> chart_from_source dl (step lw dl e w)"
proof (cases e)
  case (MarketChartSettled r response)
  assume a: "chart_from_source dl w"
  show ?thesis
  proof (cases response)
    case (Inl err)
    with a MarketChartSettled show ?thesis
      by (simp add: chart_from_source_def step_chart_failed del: step.simps)
  next
    case (Inr prices)
    show ?thesis
    proof (cases "r \<in> set (in_flight w) \<and> \<not> is_markets r")
      case True
      then show ?thesis
        unfolding MarketChartSettled Inr chart_from_source_def
        by (simp add: step_chart_ok del: step.simps)
    next
      case False
      with a MarketChartSettled show ?thesis by auto
    qed
  qed
next
  case (MarketsSettled r response)
  assume "chart_from_source dl w"
  with MarketsSettled show ?thesis
    by (cases response)
       (auto simp: chart_from_source_def Let_def commit_view render_cycle_view
          fetchCryptoData_finish_def)
next
  case IntervalFired
  assume "chart_from_source dl w"
  with IntervalFired show ?thesis
    by (auto simp: chart_from_source_def Let_def split_def commit_view render_cycle_view
        fetchCryptoData_start_def)
qed (auto simp: chart_from_source_def commit_view render_cycle_view setSelectedCurrency_def
      toggleDarkMode_def setSearchQuery_def setSelectedCrypto_def)

lemma chart_from_source_run:
  "chart_from_source dl w \<Longrightarrow> chart_from_source dl (run lw dl es w)"
  by (induction es arbitrary: w) (auto intro: chart_from_source_step)

lemma chart_from_source_mounted: "chart_from_source dl (mounted lw)"
  by (simp add: chart_from_source_def mounted_def commit_view render_cycle_view
      initial_state_def)

lemma chart_from_source_reachable: "reachable lw dl w \<Longrightarrow> chart_from_source dl w"
  by (auto simp: reachable_def intro: chart_from_source_run chart_from_source_mounted)

lemma lower_usd: "toLowerCase ''USD'' = ''usd''"
  by code_simp

lemma lower_eur: "toLowerCase ''EUR'' = ''eur''"
  by code_simp

lemma mounted_in_flight:
  "in_flight (mounted lw) =
     [MarketsRequest ''usd'', MarketChartRequest ''bitcoin'' ''usd'',
      MarketsRequest ''usd'', MarketChartRequest ''bitcoin'' ''usd'']"
  by (simp add: mounted_def commit_view render_cycle_sent initial_state_def lower_usd)

lemma mounted_view:
  "selectedCrypto (view (mounted lw)) = ''bitcoin''"
  "selectedCurrency (view (mounted lw)) = ''USD''"
  "searchQuery (view (mounted lw)) = []"
  "loading (view (mounted lw))"
  "message (view (mounted lw)) = ''''"
  by (simp_all add: mounted_def commit_view render_cycle_view initial_state_def)

lemma step_markets_ok:
  assumes "r \<in> set (in_flight w)" "is_markets r"
  shows "cryptocurrencies (view (step lw dl (MarketsSettled r (Inr d)) w)) = d"
    and "filteredCryptos (view (step lw dl (MarketsSettled r (Inr d)) w))
           = filtered lw (searchQuery (view w)) d"
    and "selectedCrypto (view (step lw dl (MarketsSettled r (Inr d)) w)) = selectedCrypto (view w)"
    and "selectedCurrency (view (step lw dl (MarketsSettled r (Inr d)) w))
           = selectedCurrency (view w)"
  using assms
  by (simp_all add: Let_def commit_view render_cycle_view fetchCryptoData_finish_def)

lemma step_currency_sent:
  assumes "c \<in> set CURRENCIES" "c \<noteq> selectedCurrency (view w)"
    "selectedCrypto (view w) \<noteq> ''''"
  shows "MarketChartRequest (selectedCrypto (view w)) (toLowerCase c)
           \<in> set (in_flight (step lw dl (CurrencyChosen c) w))"
  using assms
  by (simp add: commit_view render_cycle_sent Let_def setSelectedCurrency_def)

lemma step_asset_sent:
  assumes "i \<in> set (map crypto_id (filteredCryptos (view w)))"
    "i \<noteq> selectedCrypto (view w)" "i \<noteq> ''''"
  shows "MarketChartRequest i (toLowerCase (selectedCurrency (view w)))
           \<in> set (in_flight (step lw dl (AssetClicked i) w))"
  using assms
  by (simp add: commit_view render_cycle_sent Let_def setSelectedCrypto_def)

text \<open>
  C5, as the code has it: in every reachable state the chart is the one built from the
  last successful history response (the empty chart before the first), whatever asset
  and currency are selected now. Choosing another currency or clicking another asset
  leaves that chart and its origin as they are, and sends a history request for the
  new selection; a failed history response leaves them too; only a successful history
  response replaces the chart, by the chart of that response.
\<close>

theorem chart_is_last_successful_response:
  "(reachable lw dl w \<longrightarrow> chart_from_source dl w) \<and>
   chartData (view (step lw dl (CurrencyChosen c) w)) = chartData (view w) \<and>
   chart_source (step lw dl (CurrencyChosen c) w) = chart_source w \<and>
   chartData (view (step lw dl (AssetClicked i) w)) = chartData (view w) \<and>
   chart_source (step lw dl (AssetClicked i) w) = chart_source w \<and>
   chartData (view (step lw dl (MarketChartSettled r (Inl e)) w)) = chartData (view w) \<and>
   chart_source (step lw dl (MarketChartSettled r (Inl e)) w) = chart_source w \<and>
   (r \<in> set (in_flight w) \<and> \<not> is_markets r \<longrightarrow>
      chartData (view (step lw dl (MarketChartSettled r (Inr prices)) w)) = chart_of_prices dl prices \<and>
      chart_source (step lw dl (MarketChartSettled r (Inr prices)) w) = Some (r, prices)) \<and>
   (c \<in> set CURRENCIES \<and> c \<noteq> selectedCurrency (view w) \<and>
    selectedCrypto (view w) \<noteq> '''' \<longrightarrow>
      MarketChartRequest (selectedCrypto (view w)) (toLowerCase c)
        \<in> set (in_flight (step lw dl (CurrencyChosen c) w))) \<and>
   (i \<in> set (map crypto_id (filteredCryptos (view w))) \<and> i \<noteq> selectedCrypto (view w) \<and> i \<noteq> '''' \<longrightarrow>
      MarketChartRequest i (toLowerCase (selectedCurrency (view w)))
        \<in> set (in_flight (step lw dl (AssetClicked i) w)))"
  by (intro conjI impI chart_from_source_reachable step_currency step_asset step_chart_failed
      step_chart_ok step_currency_sent step_asset_sent; (elim conjE)?; assumption)

theorem chart_is_last_successful_response_witness:
  "reachable lower_units day_label
     (step lower_units day_label (MarketChartSettled (MarketChartRequest ''bitcoin'' ''usd'') (Inr week_of_prices))
        (mounted lower_units)) \<and>
   chart_from_source day_label
     (step lower_units day_label (MarketChartSettled (MarketChartRequest ''bitcoin'' ''usd'') (Inr week_of_prices))
        (mounted lower_units)) \<and>
   MarketChartRequest ''bitcoin'' ''usd'' \<in> set (in_flight (mounted lower_units)) \<and>
   \<not> is_markets (MarketChartRequest ''bitcoin'' ''usd'') \<and>
   chartData (view
     (step lower_units day_label (MarketChartSettled (MarketChartRequest ''bitcoin'' ''usd'') (Inr week_of_prices))
        (mounted lower_units))) = chart_of_prices day_label week_of_prices \<and>
   ''EUR'' \<in> set CURRENCIES \<and>
   ''EUR'' \<noteq> selectedCurrency (view (mounted lower_units)) \<and>
   selectedCrypto (view (mounted lower_units)) \<noteq> '''' \<and>
   MarketChartRequest ''bitcoin'' ''eur''
     \<in> set (in_flight (step lower_units day_label (CurrencyChosen ''EUR'') (mounted lower_units))) \<and>
   ''ethereum'' \<in> set (map crypto_id (filteredCryptos (view
      (step lower_units day_label (MarketsSettled (MarketsRequest ''usd'') (Inr [bitcoin, ethereum])) (mounted lower_units))))) \<and>
   ''ethereum'' \<noteq> selectedCrypto (view
      (step lower_units day_label (MarketsSettled (MarketsRequest ''usd'') (Inr [bitcoin, ethereum])) (mounted lower_units))) \<and>
   MarketChartRequest ''ethereum'' ''usd''
     \<in> set (in_flight (step lower_units day_label (AssetClicked ''ethereum'')
          (step lower_units day_label (MarketsSettled (MarketsRequest ''usd'') (Inr [bitcoin, ethereum])) (mounted lower_units))))"
proof -
  let ?r = "MarketChartRequest ''bitcoin'' ''usd''"
  let ?w1 = "step lower_units day_label (MarketChartSettled ?r (Inr week_of_prices)) (mounted lower_units)"
  let ?w2 = "step lower_units day_label (MarketsSettled (MarketsRequest ''usd'') (Inr [bitcoin, ethereum])) (mounted lower_units)"
  have r1: "reachable lower_units day_label ?w1"
    unfolding reachable_def
    by (rule exI[of _ "[MarketChartSettled ?r (Inr week_of_prices)]"]) simp
  have g1: "?r \<in> set (in_flight (mounted lower_units)) \<and> \<not> is_markets ?r"
    by (simp add: mounted_in_flight)
  have g2: "''EUR'' \<in> set CURRENCIES \<and> ''EUR'' \<noteq> selectedCurrency (view (mounted lower_units)) \<and>
      selectedCrypto (view (mounted lower_units)) \<noteq> ''''"
    by (simp add: mounted_view CURRENCIES_def)
  have m: "MarketsRequest ''usd'' \<in> set (in_flight (mounted lower_units))" "is_markets (MarketsRequest ''usd'')"
    by (simp_all add: mounted_in_flight)
  have f: "filteredCryptos (view ?w2) = [bitcoin, ethereum]"
    by (simp add: step_markets_ok[OF m] mounted_view filtered_empty_query lower_units_def
        del: step.simps)
  have s: "selectedCrypto (view ?w2) = ''bitcoin''" "selectedCurrency (view ?w2) = ''USD''"
    by (simp_all add: step_markets_ok[OF m] mounted_view del: step.simps)
  have g3: "''ethereum'' \<in> set (map crypto_id (filteredCryptos (view ?w2))) \<and>
      ''ethereum'' \<noteq> selectedCrypto (view ?w2) \<and> ''ethereum'' \<noteq> ''''"
    unfolding f s by (simp add: bitcoin_def ethereum_def)
  note t1 = chart_is_last_successful_response[where lw = lower_units and dl = day_label
      and w = "?w1" and c = "''EUR''" and i = "''ethereum''" and r = ?r
      and e = NetworkError and prices = week_of_prices]
  note t2 = chart_is_last_successful_response[where lw = lower_units and dl = day_label
      and w = "mounted lower_units" and c = "''EUR''" and i = "''ethereum''" and r = ?r
      and e = NetworkError and prices = week_of_prices]
  note t3 = chart_is_last_successful_response[where lw = lower_units and dl = day_label
      and w = "?w2" and c = "''EUR''" and i = "''ethereum''" and r = ?r
      and e = NetworkError and prices = week_of_prices]
  from t1 r1 have a: "chart_from_source day_label ?w1"
    by blast
  from t2 g1 have b: "chartData (view ?w1) = chart_of_prices day_label week_of_prices"
    by blast
  from t2 g2 have "MarketChartRequest (selectedCrypto (view (mounted lower_units))) (toLowerCase ''EUR'')
      \<in> set (in_flight (step lower_units day_label (CurrencyChosen ''EUR'') (mounted lower_units)))"
    by blast
  then have c: "MarketChartRequest ''bitcoin'' ''eur''
      \<in> set (in_flight (step lower_units day_label (CurrencyChosen ''EUR'') (mounted lower_units)))"
    unfolding mounted_view lower_eur .
  from t3 g3 have "MarketChartRequest ''ethereum'' (toLowerCase (selectedCurrency (view ?w2)))
      \<in> set (in_flight (step lower_units day_label (AssetClicked ''ethereum'') ?w2))"
    by blast
  then have d: "MarketChartRequest ''ethereum'' ''usd''
      \<in> set (in_flight (step lower_units day_label (AssetClicked ''ethereum'') ?w2))"
    unfolding s lower_usd .
  from r1 a g1 b g2 c g3 d show ?thesis
    by blast
qed

text \<open>
  C5 as the specification states it fails: the page is mounted, the history request for
  bitcoin in US dollars is answered with seven points, and the user chooses the euro.
  The state is reachable, the chart panel is on display with the very chart it showed
  before the choice, and that chart was built from the answer for US dollars while
  the selected currency is the euro.
\<close>

theorem chart_of_another_currency_stays:
  "reachable lower_units day_label
     (run lower_units day_label
        [MarketChartSettled (MarketChartRequest ''bitcoin'' ''usd'') (Inr week_of_prices),
         CurrencyChosen ''EUR''] (mounted lower_units)) \<and>
   selectedCurrency (view (run lower_units day_label
        [MarketChartSettled (MarketChartRequest ''bitcoin'' ''usd'') (Inr week_of_prices),
         CurrencyChosen ''EUR''] (mounted lower_units))) = ''EUR'' \<and>
   chart_source (run lower_units day_label
        [MarketChartSettled (MarketChartRequest ''bitcoin'' ''usd'') (Inr week_of_prices),
         CurrencyChosen ''EUR''] (mounted lower_units))
     = Some (MarketChartRequest ''bitcoin'' ''usd'', week_of_prices) \<and>
   chart_shown (view (run lower_units day_label
        [MarketChartSettled (MarketChartRequest ''bitcoin'' ''usd'') (Inr week_of_prices),
         CurrencyChosen ''EUR''] (mounted lower_units))) \<and>
   chartData (view (run lower_units day_label
        [MarketChartSettled (MarketChartRequest ''bitcoin'' ''usd'') (Inr week_of_prices),
         CurrencyChosen ''EUR''] (mounted lower_units)))
     = chartData (view (run lower_units day_label
        [MarketChartSettled (MarketChartRequest ''bitcoin'' ''usd'') (Inr week_of_prices)] (mounted lower_units))) \<and>
   \<not> chart_matches_selection (run lower_units day_label
        [MarketChartSettled (MarketChartRequest ''bitcoin'' ''usd'') (Inr week_of_prices),
         CurrencyChosen ''EUR''] (mounted lower_units))"
proof -
  let ?r = "MarketChartRequest ''bitcoin'' ''usd''"
  let ?w1 = "step lower_units day_label (MarketChartSettled ?r (Inr week_of_prices)) (mounted lower_units)"
  let ?w2 = "step lower_units day_label (CurrencyChosen ''EUR'') ?w1"
  have g: "?r \<in> set (in_flight (mounted lower_units))" "\<not> is_markets ?r"
    by (simp_all add: mounted_in_flight)
  have e1: "run lower_units day_label [MarketChartSettled ?r (Inr week_of_prices)] (mounted lower_units) = ?w1"
    by simp
  have e2: "run lower_units day_label [MarketChartSettled ?r (Inr week_of_prices), CurrencyChosen ''EUR'']
      (mounted lower_units) = ?w2"
    by simp
  have r: "reachable lower_units day_label ?w2"
    unfolding reachable_def e2[symmetric] by blast
  have eur: "''EUR'' \<in> set CURRENCIES"
    by (simp add: CURRENCIES_def)
  have cur: "selectedCurrency (view ?w2) = ''EUR''"
    by (rule step_currency(4)[OF eur])
  have sel: "selectedCrypto (view ?w2) = ''bitcoin''"
    by (simp only: step_currency step_chart_ok[OF g] mounted_view)
  have src: "chart_source ?w2 = Some (?r, week_of_prices)"
    by (simp only: step_currency step_chart_ok[OF g])
  have same: "chartData (view ?w2) = chartData (view ?w1)"
    by (rule step_currency)
  have ch: "chartData (view ?w2) = chart_of_prices day_label week_of_prices"
    by (simp only: step_currency step_chart_ok[OF g])
  have shown: "chart_shown (view ?w2)"
    unfolding chart_shown_def sel ch
    by (simp add: chart_of_prices_def week_of_prices_def)
  have "\<not> chart_matches_selection ?w2"
    unfolding chart_matches_selection_def src cur sel lower_eur by simp
  with r cur src shown same show ?thesis
    unfolding e1 e2 by blast
qed

section \<open>When the history fetch runs\<close>

text \<open>
  C6 fails on the code: the effect of lines 128 to 132 has no dependency array, so the
  history fetch runs after every render. On the mounted page, with no asset selected
  by the user, typing one letter in the search box sends two more history requests for
  bitcoin, the theme button sends one, a history response (failed or not) sends more,
  and so does the listing response that follows the interval timer.
\<close>

theorem history_fetch_runs_on_every_render:
  "selectedCrypto (view (step lower_units day_label (QueryTyped (units ''b'')) (mounted lower_units))) = selectedCrypto (view (mounted lower_units)) \<and>
   in_flight (step lower_units day_label (QueryTyped (units ''b'')) (mounted lower_units)) =
     in_flight (mounted lower_units) @
     [MarketsRequest ''usd'', MarketChartRequest ''bitcoin'' ''usd'',
      MarketsRequest ''usd'', MarketChartRequest ''bitcoin'' ''usd''] \<and>
   selectedCrypto (view (step lower_units day_label ThemeToggled (mounted lower_units))) = selectedCrypto (view (mounted lower_units)) \<and>
   in_flight (step lower_units day_label ThemeToggled (mounted lower_units)) =
     in_flight (mounted lower_units) @ [MarketsRequest ''usd'', MarketChartRequest ''bitcoin'' ''usd''] \<and>
   length (history_requests (in_flight (mounted lower_units))) = 2 \<and>
   length (history_requests (in_flight
     (step lower_units day_label (MarketChartSettled (MarketChartRequest ''bitcoin'' ''usd'') (Inl NetworkError))
        (mounted lower_units)))) = 3 \<and>
   length (history_requests (in_flight
     (run lower_units day_label [IntervalFired, MarketsSettled (MarketsRequest ''usd'') (Inl NetworkError)]
        (mounted lower_units)))) = 4"
  by code_simp

section \<open>Digits\<close>

lemma is_digit_digit_char: "d < 10 \<Longrightarrow> is_digit (digit_char d)"
  unfolding is_digit_def digit_char_def by (rule nth_mem) simp


lemma decimal_digits_digits: "c \<in> set (decimal_digits n) \<Longrightarrow> is_digit c"
proof (induction n arbitrary: c rule: decimal_digits.induct)
  case (1 n)
  show ?case
  proof (cases "n < 10")
    case True
    with "1.prems" show ?thesis
      by (simp add: decimal_digits.simps[of n] is_digit_digit_char)
  next
    case False
    with "1.prems" "1.IH" show ?thesis
      by (auto simp: decimal_digits.simps[of n] is_digit_digit_char)
  qed
qed

lemma decimal_digits_nonempty: "decimal_digits n \<noteq> []"
  by (simp add: decimal_digits.simps[of n])

lemma group_thousands_chars:
  "c \<in> set (group_thousands ds) \<Longrightarrow> c \<in> set ds \<or> c = CHR '',''"
proof (induction ds arbitrary: c rule: group_thousands.induct)
  case (1 ds)
  show ?case
  proof (cases "length ds \<le> 3")
    case True
    with "1.prems" show ?thesis
      by (simp add: group_thousands.simps[of ds])
  next
    case False
    with "1.prems" "1.IH" show ?thesis
      by (auto simp: group_thousands.simps[of ds] dest: in_set_takeD in_set_dropD)
  qed
qed

lemma group_thousands_nonempty: "ds \<noteq> [] \<Longrightarrow> group_thousands ds \<noteq> []"
  by (cases "length ds \<le> 3") (simp_all add: group_thousands.simps[of ds])

lemma group_thousands_last: "ds \<noteq> [] \<Longrightarrow> last (group_thousands ds) = last ds"
proof (cases "length ds \<le> 3")
  case True
  then show ?thesis
    by (simp add: group_thousands.simps[of ds])
next
  case False
  then have "length ds - 3 < length ds"
    by simp
  then have "drop (length ds - 3) ds \<noteq> []" "last (drop (length ds - 3) ds) = last ds"
    by simp_all
  with False show ?thesis
    by (simp add: group_thousands.simps[of ds])
qed


section \<open>Currency formatting\<close>

lemmas decimal_digits_numeral =
  decimal_digits.simps[of "numeral n" for n] decimal_digits.simps[of "Suc 0"]
  decimal_digits.simps[of 0] decimal_digits.simps[of 1]

lemma grouped_fixed2_3000: "grouped_fixed2 3000 = ''3,000.00''"
proof -
  have "\<lfloor>(3000::rat) * 10 ^ 2 + 1 / 2\<rfloor> = 300000"
    by (simp add: floor_eq_iff)
  then have n: "scaled_round 2 3000 = 300000"
    by (simp add: scaled_round_def)
  have d: "decimal_digits 3000 = ''3000''"
    by (simp add: decimal_digits_numeral digit_char_def)
  have g: "group_thousands ''3000'' = ''3,000''"
    by (simp add: group_thousands.simps)
  show ?thesis
    unfolding grouped_fixed2_def n Let_def
    by (simp add: d g digit_char_def)
qed

lemma read_digits_append:
  "read_digits v (a @ b) = read_digits (read_digits v a) b"
  by (induction a arbitrary: v) simp_all

lemma digit_value_digit_char: "d < 10 \<Longrightarrow> digit_value (digit_char d) = d"
proof -
  assume "d < 10"
  then have "d \<in> {0, 1, 2, 3, 4, 5, 6, 7, 8, 9}"
    by auto
  then show ?thesis
    by (auto simp: digit_value_def digit_char_def)
qed

lemma read_digits_digit:
  "d < 10 \<Longrightarrow> read_digits v (a @ [digit_char d]) = 10 * read_digits v a + d"
  by (simp add: read_digits_append is_digit_digit_char digit_value_digit_char)

lemma read_digits_decimal: "read_digits 0 (decimal_digits n) = n"
proof (induction n rule: decimal_digits.induct)
  case (1 n)
  show ?case
  proof (cases "n < 10")
    case True
    then show ?thesis
      using read_digits_digit[of n 0 "[]"] by (simp add: decimal_digits.simps[of n])
  next
    case False
    then show ?thesis
      using "1.IH" read_digits_digit[of "n mod 10" 0 "decimal_digits (n div 10)"]
      by (simp add: decimal_digits.simps[of n])
  qed
qed

lemma read_digits_group: "read_digits v (group_thousands ds) = read_digits v ds"
proof (induction ds arbitrary: v rule: group_thousands.induct)
  case (1 ds)
  show ?case
  proof (cases "length ds \<le> 3")
    case True
    then show ?thesis
      by (simp add: group_thousands.simps[of ds])
  next
    case False
    have c: "\<not> is_digit CHR '',''"
      by (simp add: is_digit_def)
    have "read_digits v (group_thousands ds)
        = read_digits (read_digits v (take (length ds - 3) ds)) (drop (length ds - 3) ds)"
      using False "1.IH"[of v]
      by (simp add: group_thousands.simps[of ds] read_digits_append c)
    also have "\<dots> = read_digits v (take (length ds - 3) ds @ drop (length ds - 3) ds)"
      by (simp only: read_digits_append)
    finally show ?thesis
      by simp
  qed
qed

lemma digits_value_grouped_fixed2: "digits_value (grouped_fixed2 x) = scaled_round 2 x"
proof -
  define n where "n = scaled_round 2 x"
  have p: "\<not> is_digit CHR ''.''"
    by (simp add: is_digit_def)
  have i: "read_digits 0 (group_thousands (decimal_digits (n div 100))) = n div 100"
    by (simp add: read_digits_group read_digits_decimal)
  have "digits_value (grouped_fixed2 x)
      = 10 * (10 * (n div 100) + n mod 100 div 10) + n mod 10"
    unfolding digits_value_def grouped_fixed2_def Let_def n_def[symmetric]
    by (simp add: read_digits_append i p is_digit_digit_char digit_value_digit_char)
  also have "\<dots> = 100 * (n div 100) + (10 * (n mod 100 div 10) + n mod 10)"
    by simp
  also have "\<dots> = 100 * (n div 100) + n mod 100"
  proof -
    have "n mod 100 mod 10 = n mod 10"
      by (simp add: mod_mod_cancel)
    then have "10 * (n mod 100 div 10) + n mod 10 = n mod 100"
      using div_mult_mod_eq[of "n mod 100" 10] by simp
    then show ?thesis
      by (simp only:)
  qed
  also have "\<dots> = n"
    by simp
  finally show ?thesis
    by (simp add: n_def)
qed

lemma scaled_round_nearest:
  assumes "0 \<le> x"
  shows "100 * x - 1 / 2 < of_nat (scaled_round 2 x)"
    and "of_nat (scaled_round 2 x) \<le> 100 * x + 1 / 2"
proof -
  have "0 \<le> \<lfloor>x * 10 ^ 2 + 1 / 2\<rfloor>"
    using assms by simp
  then have e: "(of_nat (scaled_round 2 x) :: rat) = of_int \<lfloor>x * 10 ^ 2 + 1 / 2\<rfloor>"
    by (simp add: scaled_round_def)
  have u: "x * 10 ^ 2 + 1 / 2 < of_int \<lfloor>x * 10 ^ 2 + 1 / 2\<rfloor> + 1"
    using floor_correct[of "x * 10 ^ 2 + 1 / 2"] by simp
  have l: "of_int \<lfloor>x * 10 ^ 2 + 1 / 2\<rfloor> \<le> x * 10 ^ 2 + 1 / 2"
    by (rule of_int_floor_le)
  show "100 * x - 1 / 2 < of_nat (scaled_round 2 x)"
    unfolding e using u by simp
  show "of_nat (scaled_round 2 x) \<le> 100 * x + 1 / 2"
    unfolding e using l by (simp add: mult.commute)
qed

lemma mod4_head: "i < (n::nat) \<Longrightarrow> (n + 4 - i) mod 4 = (n - i) mod 4"
proof -
  assume head: "i < n"
        have "n + 4 - i = (n - i) + 4"
          using head by simp
        then show ?thesis
          by (simp only: mod_add_self2)
qed

lemma mod4_tail: "j < 3 \<Longrightarrow> (n + 4 - (n + 1 + j)) mod 4 \<noteq> (0::nat)"
proof -
  assume "j < 3"
  then have "n + 4 - (n + 1 + j) = 3 - j"
    by simp
  moreover have "0 < 3 - j" "3 - j < 4"
    using \<open>j < 3\<close> by simp_all
  ultimately show ?thesis
    by simp
qed

lemma mod4_short: "i < n \<Longrightarrow> n \<le> 3 \<Longrightarrow> (n - i) mod 4 \<noteq> (0::nat)"
proof -
  assume "i < n" "n \<le> 3"
  then have "0 < n - i" "n - i < 4"
    by simp_all
  then show ?thesis
    by simp
qed

lemma positions_append:
  assumes h: "\<And>i. i < length h \<Longrightarrow> if (length h - i) mod 4 = 0 then h ! i = CHR '','' else is_digit (h ! i)"
    and t: "length t = 3" "\<forall>c \<in> set t. is_digit c"
    and i: "i < length (h @ CHR '','' # t)"
  shows "if (length (h @ CHR '','' # t) - i) mod 4 = 0
         then (h @ CHR '','' # t) ! i = CHR '','' else is_digit ((h @ CHR '','' # t) ! i)"
proof -
  have len: "length (h @ CHR '','' # t) = length h + 4"
    by (simp add: t)
  consider (head) "i < length h" | (comma) "i = length h" | (tail) "length h < i"
    by linarith
  then show ?thesis
  proof cases
    case head
    have "(h @ CHR '','' # t) ! i = h ! i"
      using head by (simp add: nth_append)
    then show ?thesis
      unfolding len using h[OF head] by (simp only: mod4_head[OF head])
  next
    case comma
    have "(h @ CHR '','' # t) ! i = CHR '',''"
      unfolding comma by simp
    moreover have "(length h + 4 - i) mod 4 = 0"
      unfolding comma by simp
    ultimately show ?thesis
      unfolding len by (simp only: simp_thms if_True)
  next
    case tail
    define j where "j = i - length h - 1"
    have j: "i = length h + 1 + j"
      using tail by (simp add: j_def)
    with i have j3: "j < 3"
      unfolding len by simp
    have "(h @ CHR '','' # t) ! i = t ! j"
      unfolding j by (simp add: nth_append)
    moreover have "is_digit (t ! j)"
      using t j3 by simp
    moreover have "(length h + 4 - i) mod 4 \<noteq> 0"
      unfolding j by (rule mod4_tail[OF j3])
    ultimately show ?thesis
      unfolding len by (simp only: if_False)
  qed
qed

lemma group_thousands_positions:
  assumes "\<forall>c \<in> set ds. is_digit c" "i < length (group_thousands ds)"
  shows "if (length (group_thousands ds) - i) mod 4 = 0
         then group_thousands ds ! i = CHR '','' else is_digit (group_thousands ds ! i)"
  using assms
proof (induction ds arbitrary: i rule: group_thousands.induct)
  case (1 ds)
  show ?case
  proof (cases "length ds \<le> 3")
    case True
    then have g: "group_thousands ds = ds"
      by (simp add: group_thousands.simps[of ds])
    have i: "i < length ds"
      using "1.prems"(2) by (simp only: g)
    then have "is_digit (ds ! i)"
      using "1.prems"(1) by simp
    then show ?thesis
      unfolding g using mod4_short[OF i True] by (simp only: if_False)
  next
    case False
    define h where "h = group_thousands (take (length ds - 3) ds)"
    define t where "t = drop (length ds - 3) ds"
    have g: "group_thousands ds = h @ CHR '','' # t"
      using False by (simp add: group_thousands.simps[of ds] h_def t_def)
    have lt: "length t = 3"
      using False by (simp add: t_def)
    have dt: "\<forall>c \<in> set t. is_digit c"
      using "1.prems"(1) unfolding t_def by (auto dest: in_set_dropD)
    have dh: "\<forall>c \<in> set (take (length ds - 3) ds). is_digit c"
      using "1.prems"(1) by (auto dest: in_set_takeD)
    have ih: "if (length h - k) mod 4 = 0 then h ! k = CHR '','' else is_digit (h ! k)"
      if "k < length h" for k
      using "1.IH"[OF False dh, of k] that unfolding h_def by blast
    have i: "i < length (h @ CHR '','' # t)"
      using "1.prems"(2) by (simp only: g)
    show ?thesis
      unfolding g
    proof (rule positions_append)
      show "i < length (h @ CHR '','' # t)"
        by (rule i)
    qed (use ih lt dt in blast)+
  qed
qed

lemma group_thousands_hd: "ds \<noteq> [] \<Longrightarrow> hd (group_thousands ds) = hd ds"
proof (induction ds rule: group_thousands.induct)
  case (1 ds)
  show ?case
  proof (cases "length ds \<le> 3")
    case True
    then show ?thesis
      by (simp add: group_thousands.simps[of ds])
  next
    case False
    then have ne: "take (length ds - 3) ds \<noteq> []"
      using "1.prems" by simp
    then have "group_thousands (take (length ds - 3) ds) \<noteq> []"
      by (rule group_thousands_nonempty)
    then show ?thesis
      using False "1.IH"[OF False ne] ne
      by (simp add: group_thousands.simps[of ds] hd_take)
  qed
qed

lemma digit_char_zero: "d < 10 \<Longrightarrow> digit_char d = CHR ''0'' \<Longrightarrow> d = 0"
  using digit_value_digit_char[of d] by (simp add: digit_value_def)

lemma decimal_digits_hd: "hd (decimal_digits n) = CHR ''0'' \<Longrightarrow> n = 0"
proof (induction n rule: decimal_digits.induct)
  case (1 n)
  show ?case
  proof (cases "n < 10")
    case True
    with "1.prems" show ?thesis
      by (simp add: decimal_digits.simps[of n] digit_char_zero)
  next
    case False
    with "1.prems" have "hd (decimal_digits (n div 10)) = CHR ''0''"
      by (simp add: decimal_digits.simps[of n] decimal_digits_nonempty)
    with "1.IH" False have "n div 10 = 0"
      by simp
    with False show ?thesis
      by simp
  qed
qed

lemma grouped_decimal_digits: "grouped_by_three (group_thousands (decimal_digits n))"
proof -
  have d: "\<forall>c \<in> set (decimal_digits n). is_digit c"
    using decimal_digits_digits by blast
  have ne: "group_thousands (decimal_digits n) \<noteq> []"
    by (rule group_thousands_nonempty) (rule decimal_digits_nonempty)
  have z: "group_thousands (decimal_digits n) = ''0''"
    if "hd (group_thousands (decimal_digits n)) = CHR ''0''"
  proof -
    from that have "hd (decimal_digits n) = CHR ''0''"
      by (simp add: group_thousands_hd decimal_digits_nonempty)
    then have "n = 0"
      by (rule decimal_digits_hd)
    then show ?thesis
      by (simp add: decimal_digits.simps[of 0] group_thousands.simps digit_char_def)
  qed
  show ?thesis
    unfolding grouped_by_three_def
  proof (intro conjI ballI impI)
    show "group_thousands (decimal_digits n) \<noteq> []"
      by (rule ne)
  next
    fix i
    assume "i \<in> {0..<length (group_thousands (decimal_digits n))}"
    then have "i < length (group_thousands (decimal_digits n))"
      by simp
    then show "if (length (group_thousands (decimal_digits n)) - i) mod 4 = 0
         then group_thousands (decimal_digits n) ! i = CHR '',''
         else is_digit (group_thousands (decimal_digits n) ! i)"
      by (rule group_thousands_positions[OF d])
  next
    assume "hd (group_thousands (decimal_digits n)) = CHR ''0''"
    then show "group_thousands (decimal_digits n) = ''0''"
      by (rule z)
  qed
qed

lemma is_digit_unit_of_char: "is_digit c \<Longrightarrow> is_digit_unit (of_char c)"
  unfolding is_digit_def is_digit_unit_def units_def
  by (simp only: set_map) (rule imageI)

lemma two_fraction_units_append:
  assumes "ip \<noteq> []" "is_digit (last ip)" "is_digit d1" "is_digit d2"
  shows "two_fraction_units (pre @ units (ip @ [CHR ''.'', d1, d2]))"
proof -
  from assms(1) obtain a i where ip: "ip = a @ [i]"
    by (cases ip rule: rev_cases) auto
  have p: "(of_char CHR ''.'' :: 16 word) = 0x2E"
    by simp
  have "rev (pre @ units (ip @ [CHR ''.'', d1, d2]))
      = of_char d2 # of_char d1 # of_char CHR ''.'' # of_char i # rev (pre @ units a)"
    unfolding ip units_def by simp
  then show ?thesis
    unfolding two_fraction_units_def p
    using assms(2-4) ip by (simp add: is_digit_unit_of_char)
qed

lemma grouped_fixed2_parts:
  "\<exists>integer fraction.
     grouped_fixed2 m = integer @ ''.'' @ fraction \<and>
     grouped_by_three integer \<and> length fraction = 2 \<and> list_all is_digit fraction \<and>
     two_fraction_units (pre @ units (integer @ ''.'' @ fraction))"
proof -
  define n where "n = scaled_round 2 m"
  define integer where "integer = group_thousands (decimal_digits (n div 100))"
  define fraction where "fraction = [digit_char (n mod 100 div 10), digit_char (n mod 10)]"
  have e: "grouped_fixed2 m = integer @ ''.'' @ fraction"
    by (simp add: grouped_fixed2_def Let_def n_def integer_def fraction_def)
  have g: "grouped_by_three integer"
    unfolding integer_def by (rule grouped_decimal_digits)
  have f: "length fraction = 2" "list_all is_digit fraction"
    by (simp_all add: fraction_def is_digit_digit_char)
  have ne: "integer \<noteq> []"
    using g by (simp add: grouped_by_three_def)
  have "last integer = last (decimal_digits (n div 100))"
    unfolding integer_def by (rule group_thousands_last) (rule decimal_digits_nonempty)
  then have l: "is_digit (last integer)"
    using decimal_digits_digits[of "last (decimal_digits (n div 100))" "n div 100"]
      decimal_digits_nonempty[of "n div 100"] by simp
  have "two_fraction_units
          (pre @ units (integer @ [CHR ''.'', digit_char (n mod 100 div 10), digit_char (n mod 10)]))"
    by (rule two_fraction_units_append[OF ne l]) (simp_all add: is_digit_digit_char)
  then have t: "two_fraction_units (pre @ units (integer @ ''.'' @ fraction))"
    by (simp add: fraction_def)
  from e g f t show ?thesis
    by blast
qed

lemma formatNumber_finite:
  "well_formed_currency_code cur \<Longrightarrow>
   formatNumber cs sd cur (Finite x)
     = Inr ((if x < 0 then units ''-'' else []) @ cs cur @ units (grouped_fixed2 (sd \<bar>x\<bar>)))"
  by (simp add: formatNumber_def)

lemma formatNumber_negative_zero:
  "well_formed_currency_code cur \<Longrightarrow>
   formatNumber cs sd cur NegativeZero
     = Inr (units ''-'' @ cs cur @ units (grouped_fixed2 (sd 0)))"
  by (simp add: formatNumber_def)

lemma scaled_round_3000: "scaled_round 2 3000 = 300000"
proof -
  have "\<lfloor>(3000::rat) * 10 ^ 2 + 1 / 2\<rfloor> = 300000"
    by (simp add: floor_eq_iff)
  then show ?thesis
    by (simp add: scaled_round_def)
qed

section \<open>The percentage\<close>













section \<open>The currency code handed to the formatter\<close>

lemma CURRENCIES_well_formed: "cur \<in> set CURRENCIES \<Longrightarrow> well_formed_currency_code cur"
  by (auto simp: CURRENCIES_def well_formed_currency_code_def is_ascii_letter_def)

lemma currency_supported_commit:
  "selectedCurrency s \<in> set CURRENCIES \<Longrightarrow> currency_supported (view (commit lw d s w))"
  by (simp add: currency_supported_def commit_view render_cycle_view)

lemma currency_supported_step:
  "currency_supported (view w) \<Longrightarrow> currency_supported (view (step lw dl e w))"
proof (cases e)
  case (MarketsSettled r response)
  assume "currency_supported (view w)"
  with MarketsSettled show ?thesis
    by (cases response)
       (auto simp: Let_def fetchCryptoData_finish_def currency_supported_def
          intro!: currency_supported_commit[unfolded currency_supported_def])
next
  case (MarketChartSettled r response)
  assume "currency_supported (view w)"
  with MarketChartSettled show ?thesis
    by (cases response)
       (auto simp: Let_def fetchChartData_finish_def currency_supported_def
          intro!: currency_supported_commit[unfolded currency_supported_def])
next
  case IntervalFired
  assume "currency_supported (view w)"
  with IntervalFired show ?thesis
    by (auto simp: Let_def split_def fetchCryptoData_start_def currency_supported_def
        intro!: currency_supported_commit[unfolded currency_supported_def])
qed (auto simp: currency_supported_def setSelectedCurrency_def toggleDarkMode_def
      setSearchQuery_def setSelectedCrypto_def
      intro!: currency_supported_commit[unfolded currency_supported_def])

lemma currency_supported_run:
  "currency_supported (view w) \<Longrightarrow> currency_supported (view (run lw dl es w))"
  by (induction es arbitrary: w) (auto intro: currency_supported_step)

lemma currency_supported_mounted: "currency_supported (view (mounted lw))"
  unfolding mounted_def
  by (rule currency_supported_commit) (simp add: initial_state_def CURRENCIES_def)

lemma currency_supported_reachable:
  "reachable lw dl w \<Longrightarrow> selectedCurrency (view w) \<in> set CURRENCIES"
  using currency_supported_run[OF currency_supported_mounted]
  by (auto simp: reachable_def currency_supported_def)

lemma first_render_currency:
  "selectedCurrency (view w) \<in> set CURRENCIES \<Longrightarrow>
   selectedCurrency (first_render dl e w) \<in> set CURRENCIES"
  by (cases e)
     (auto simp: setSelectedCurrency_def toggleDarkMode_def setSearchQuery_def
        setSelectedCrypto_def fetchCryptoData_start_def fetchCryptoData_finish_def
        fetchChartData_finish_def split: sum.splits)

text \<open>
  C8, as the code has it: for every finite number and every currency code of three
  letters the formatter returns a text: a minus sign for a negative number, the
  currency's symbol and the magnitude, which is the integer digits in groups of three,
  one point and exactly two fraction digits. The digits spell, in hundredths, the
  whole number nearest to a hundred times the number's shortest decimal numeral, the
  larger one of two. The negative zero is printed with two fraction digits too. A code
  that is not three letters makes the formatter throw; the four codes of the selector
  are three letters, and the selected currency is one of them in every state at rest
  and in the render that follows an event. The price, the market capitalisation and
  the volume of a card are all printed by this one function with the selected currency.
  With the dollar sign as the symbol of USD, 3000 is printed as \<^verbatim>\<open>$3,000.00\<close>.
\<close>

theorem currency_format_of_finite_number:
  "(well_formed_currency_code cur \<longrightarrow>
      (\<exists>integer fraction.
         formatNumber cs sd cur (Finite x)
           = Inr ((if x < 0 then units ''-'' else []) @ cs cur @
                  units (integer @ ''.'' @ fraction)) \<and>
         grouped_by_three integer \<and> length fraction = 2 \<and> list_all is_digit fraction \<and>
         two_fraction_units
           ((if x < 0 then units ''-'' else []) @ cs cur @ units (integer @ ''.'' @ fraction)) \<and>
         (0 \<le> sd \<bar>x\<bar> \<longrightarrow>
            100 * sd \<bar>x\<bar> - 1 / 2 < of_nat (digits_value (integer @ ''.'' @ fraction)) \<and>
            of_nat (digits_value (integer @ ''.'' @ fraction)) \<le> 100 * sd \<bar>x\<bar> + 1 / 2)) \<and>
      (\<exists>text. formatNumber cs sd cur NegativeZero = Inr text \<and> two_fraction_units text)) \<and>
   (\<not> well_formed_currency_code cur \<longrightarrow> formatNumber cs sd cur num = Inl RangeError) \<and>
   (cur \<in> set CURRENCIES \<longrightarrow> well_formed_currency_code cur) \<and>
   (reachable lw dl w \<longrightarrow>
      selectedCurrency (view w) \<in> set CURRENCIES \<and>
      selectedCurrency (first_render dl e w) \<in> set CURRENCIES) \<and>
   card_price cs sd s crypto
     = formatNumber cs sd (selectedCurrency s) (Finite (current_price crypto)) \<and>
   card_market_cap cs sd s crypto
     = (case formatNumber cs sd (selectedCurrency s) (Finite (market_cap crypto)) of
          Inl error \<Rightarrow> Inl error
        | Inr formatted \<Rightarrow> Inr (units ''Market Cap: '' @ formatted)) \<and>
   card_volume cs sd s crypto
     = (case formatNumber cs sd (selectedCurrency s) (Finite (total_volume crypto)) of
          Inl error \<Rightarrow> Inl error
        | Inr formatted \<Rightarrow> Inr (units ''Volume: '' @ formatted)) \<and>
   (cs ''USD'' = units ''$'' \<and> sd 3000 = 3000 \<longrightarrow>
      formatNumber cs sd ''USD'' (Finite 3000) = Inr (units ''$3,000.00''))"
proof -
  have usd: "well_formed_currency_code ''USD''"
    by (rule CURRENCIES_well_formed) (simp add: CURRENCIES_def)
  have u: "cs ''USD'' = units ''$'' \<and> sd 3000 = 3000 \<longrightarrow>
      formatNumber cs sd ''USD'' (Finite 3000) = Inr (units ''$3,000.00'')"
    by (simp add: formatNumber_finite[OF usd] grouped_fixed2_3000 units_def)
  have f: "\<exists>integer fraction.
         formatNumber cs sd cur (Finite x)
           = Inr ((if x < 0 then units ''-'' else []) @ cs cur @
                  units (integer @ ''.'' @ fraction)) \<and>
         grouped_by_three integer \<and> length fraction = 2 \<and> list_all is_digit fraction \<and>
         two_fraction_units
           ((if x < 0 then units ''-'' else []) @ cs cur @ units (integer @ ''.'' @ fraction)) \<and>
         (0 \<le> sd \<bar>x\<bar> \<longrightarrow>
            100 * sd \<bar>x\<bar> - 1 / 2 < of_nat (digits_value (integer @ ''.'' @ fraction)) \<and>
            of_nat (digits_value (integer @ ''.'' @ fraction)) \<le> 100 * sd \<bar>x\<bar> + 1 / 2)"
    if wf: "well_formed_currency_code cur"
  proof -
    obtain integer fraction where p: "grouped_fixed2 (sd \<bar>x\<bar>) = integer @ ''.'' @ fraction"
      "grouped_by_three integer" "length fraction = 2" "list_all is_digit fraction"
      "two_fraction_units
         (((if x < 0 then units ''-'' else []) @ cs cur) @ units (integer @ ''.'' @ fraction))"
      using grouped_fixed2_parts[of "sd \<bar>x\<bar>" "(if x < 0 then units ''-'' else []) @ cs cur"]
      by blast
    have v: "digits_value (integer @ ''.'' @ fraction) = scaled_round 2 (sd \<bar>x\<bar>)"
      unfolding p(1)[symmetric] by (rule digits_value_grouped_fixed2)
    have n: "0 \<le> sd \<bar>x\<bar> \<longrightarrow>
            100 * sd \<bar>x\<bar> - 1 / 2 < of_nat (digits_value (integer @ ''.'' @ fraction)) \<and>
            of_nat (digits_value (integer @ ''.'' @ fraction)) \<le> 100 * sd \<bar>x\<bar> + 1 / 2"
      unfolding v using scaled_round_nearest[of "sd \<bar>x\<bar>"] by blast
    have "formatNumber cs sd cur (Finite x)
           = Inr ((if x < 0 then units ''-'' else []) @ cs cur @
                  units (integer @ ''.'' @ fraction))"
      unfolding formatNumber_finite[OF wf] p(1) ..
    with p(2-5) n show ?thesis
      by (intro exI conjI) simp_all
  qed
  have z: "\<exists>text. formatNumber cs sd cur NegativeZero = Inr text \<and> two_fraction_units text"
    if wf: "well_formed_currency_code cur"
  proof -
    obtain integer fraction where p: "grouped_fixed2 (sd 0) = integer @ ''.'' @ fraction"
      "two_fraction_units ((units ''-'' @ cs cur) @ units (integer @ ''.'' @ fraction))"
      using grouped_fixed2_parts[of "sd 0" "units ''-'' @ cs cur"] by blast
    show ?thesis
      unfolding formatNumber_negative_zero[OF wf] p(1) using p(2) by simp
  qed
  have r: "\<not> well_formed_currency_code cur \<longrightarrow> formatNumber cs sd cur num = Inl RangeError"
    by (simp add: formatNumber_def)
  have c: "card_price cs sd s crypto
       = formatNumber cs sd (selectedCurrency s) (Finite (current_price crypto))"
    "card_market_cap cs sd s crypto
       = (case formatNumber cs sd (selectedCurrency s) (Finite (market_cap crypto)) of
            Inl error \<Rightarrow> Inl error
          | Inr formatted \<Rightarrow> Inr (units ''Market Cap: '' @ formatted))"
    "card_volume cs sd s crypto
       = (case formatNumber cs sd (selectedCurrency s) (Finite (total_volume crypto)) of
            Inl error \<Rightarrow> Inl error
          | Inr formatted \<Rightarrow> Inr (units ''Volume: '' @ formatted))"
    by (simp_all add: card_price_def card_market_cap_def card_volume_def)
  have k: "cur \<in> set CURRENCIES \<longrightarrow> well_formed_currency_code cur"
    "reachable lw dl w \<longrightarrow>
      selectedCurrency (view w) \<in> set CURRENCIES \<and>
      selectedCurrency (first_render dl e w) \<in> set CURRENCIES"
    using CURRENCIES_well_formed currency_supported_reachable first_render_currency by blast+
  from f z have fz: "well_formed_currency_code cur \<longrightarrow>
      (\<exists>integer fraction.
         formatNumber cs sd cur (Finite x)
           = Inr ((if x < 0 then units ''-'' else []) @ cs cur @
                  units (integer @ ''.'' @ fraction)) \<and>
         grouped_by_three integer \<and> length fraction = 2 \<and> list_all is_digit fraction \<and>
         two_fraction_units
           ((if x < 0 then units ''-'' else []) @ cs cur @ units (integer @ ''.'' @ fraction)) \<and>
         (0 \<le> sd \<bar>x\<bar> \<longrightarrow>
            100 * sd \<bar>x\<bar> - 1 / 2 < of_nat (digits_value (integer @ ''.'' @ fraction)) \<and>
            of_nat (digits_value (integer @ ''.'' @ fraction)) \<le> 100 * sd \<bar>x\<bar> + 1 / 2)) \<and>
      (\<exists>text. formatNumber cs sd cur NegativeZero = Inr text \<and> two_fraction_units text)"
    by blast
  show ?thesis
    by (intro conjI fz r k c u)
qed

theorem currency_format_of_finite_number_witness:
  "well_formed_currency_code ''USD'' \<and>
   ''USD'' \<in> set CURRENCIES \<and>
   reachable lower_units day_label (mounted lower_units) \<and>
   selectedCurrency (first_render day_label whole_listing (mounted lower_units))
     \<in> set CURRENCIES \<and>
   en_US_symbol ''USD'' = units ''$'' \<and>
   whole_amount 3000 = 3000 \<and>
   0 \<le> whole_amount \<bar>3000\<bar> \<and>
   formatNumber en_US_symbol whole_amount ''USD'' (Finite 3000) = Inr (units ''$3,000.00'') \<and>
   card_price en_US_symbol whole_amount
     (first_render day_label whole_listing (mounted lower_units)) ethereum
     = Inr (units ''$3,000.00'') \<and>
   two_fraction_units (units ''$3,000.00'') \<and>
   grouped_by_three ''3,000'' \<and>
   digits_value ''3,000.00'' = 300000 \<and>
   \<not> well_formed_currency_code ''US'' \<and>
   formatNumber en_US_symbol whole_amount ''US'' (Finite 3000) = Inl RangeError \<and>
   formatNumber en_US_symbol whole_amount ''EUR'' (Finite (- 3000))
     = Inr ([0x2D, 0x20AC] @ units ''3,000.00'')"
proof -
  let ?s = "first_render day_label whole_listing (mounted lower_units)"
  note t = currency_format_of_finite_number[where cur = "''USD''" and cs = en_US_symbol
      and sd = whole_amount and x = 3000 and lw = lower_units and dl = day_label
      and w = "mounted lower_units" and e = whole_listing and s = ?s and crypto = ethereum
      and num = "Finite 3000"]
  note t' = currency_format_of_finite_number[where cur = "''US''" and cs = en_US_symbol
      and sd = whole_amount and x = 3000 and lw = lower_units and dl = day_label
      and w = "mounted lower_units" and e = whole_listing and s = ?s and crypto = ethereum
      and num = "Finite 3000"]
  have h1: "''USD'' \<in> set CURRENCIES"
    by (simp add: CURRENCIES_def)
  from t h1 have h2: "well_formed_currency_code ''USD''"
    by blast
  have h3: "reachable lower_units day_label (mounted lower_units)"
    unfolding reachable_def by (rule exI[of _ "[]"]) simp
  from t h3 have a1: "selectedCurrency ?s \<in> set CURRENCIES"
    by blast
  have h4: "en_US_symbol ''USD'' = units ''$''"
    by code_simp
  have h5: "whole_amount 3000 = 3000" "0 \<le> whole_amount \<bar>3000\<bar>"
    by (simp_all add: whole_amount_def)
  from t h4 h5 have a2:
    "formatNumber en_US_symbol whole_amount ''USD'' (Finite 3000) = Inr (units ''$3,000.00'')"
    by blast
  have p: "current_price ethereum = 3000"
    by (simp add: ethereum_def)
  have cur: "selectedCurrency ?s = ''USD''"
    by (simp add: whole_listing_def mounted_in_flight mounted_view fetchCryptoData_finish_def)
  from t have "card_price en_US_symbol whole_amount ?s ethereum
      = formatNumber en_US_symbol whole_amount (selectedCurrency ?s) (Finite (current_price ethereum))"
    by blast
  then have a3: "card_price en_US_symbol whole_amount ?s ethereum = Inr (units ''$3,000.00'')"
    unfolding p cur a2 .
  from t h2 obtain integer fraction where
    "formatNumber en_US_symbol whole_amount ''USD'' (Finite 3000)
       = Inr ((if (3000::rat) < 0 then units ''-'' else []) @ en_US_symbol ''USD'' @
              units (integer @ ''.'' @ fraction))"
    and "two_fraction_units
          ((if (3000::rat) < 0 then units ''-'' else []) @ en_US_symbol ''USD'' @
           units (integer @ ''.'' @ fraction))"
    by blast
  then have a4: "two_fraction_units (units ''$3,000.00'')"
    unfolding a2 by simp
  have a5: "grouped_by_three ''3,000''"
    by code_simp
  have a6: "digits_value ''3,000.00'' = 300000"
    unfolding grouped_fixed2_3000[symmetric] digits_value_grouped_fixed2 by (rule scaled_round_3000)
  have h6: "\<not> well_formed_currency_code ''US''"
    by (simp add: well_formed_currency_code_def)
  from t' h6 have a7: "formatNumber en_US_symbol whole_amount ''US'' (Finite 3000) = Inl RangeError"
    by blast
  have eur: "well_formed_currency_code ''EUR''"
    by (rule CURRENCIES_well_formed) (simp add: CURRENCIES_def)
  have es: "en_US_symbol ''EUR'' = [0x20AC]"
    by (simp add: en_US_symbol_def)
  have ms: "units ''-'' = [0x2D]"
    by code_simp
  have a8: "formatNumber en_US_symbol whole_amount ''EUR'' (Finite (- 3000))
     = Inr ([0x2D, 0x20AC] @ units ''3,000.00'')"
    unfolding formatNumber_finite[OF eur] es ms
    by (simp add: whole_amount_def grouped_fixed2_3000)
  from h2 h1 h3 a1 h4 h5 a2 a3 a4 a5 a6 h6 a7 a8 show ?thesis
    by blast
qed

text \<open>
  C8 as the specification states it, for every numeric value, fails: an infinity and
  \<^verbatim>\<open>NaN\<close> are numeric values, and their texts have no point and no fraction digit.
\<close>

theorem infinity_and_nan_without_fraction_digits:
  "formatNumber en_US_symbol whole_amount ''USD'' PositiveInfinity = Inr [0x24, 0x221E] \<and>
   \<not> two_fraction_units [0x24, 0x221E] \<and>
   formatNumber en_US_symbol whole_amount ''USD'' NegativeInfinity = Inr [0x2D, 0x24, 0x221E] \<and>
   \<not> two_fraction_units [0x2D, 0x24, 0x221E] \<and>
   formatNumber en_US_symbol whole_amount ''USD'' NaN = Inr (units ''$NaN'') \<and>
   \<not> two_fraction_units (units ''$NaN'')"
proof -
  have usd: "well_formed_currency_code ''USD''"
    by (rule CURRENCIES_well_formed) (simp add: CURRENCIES_def)
  have s: "en_US_symbol ''USD'' = [0x24]"
    by (simp add: en_US_symbol_def)
  have m: "units ''-'' = [0x2D]"
    by code_simp
  have f: "formatNumber en_US_symbol whole_amount ''USD'' PositiveInfinity = Inr [0x24, 0x221E]"
    "formatNumber en_US_symbol whole_amount ''USD'' NegativeInfinity = Inr [0x2D, 0x24, 0x221E]"
    "formatNumber en_US_symbol whole_amount ''USD'' NaN = Inr ([0x24] @ units ''NaN'')"
    by (simp_all add: formatNumber_def usd s m)
  have u: "[0x24] @ units ''NaN'' = units ''$NaN''"
    by code_simp
  have n: "\<not> two_fraction_units [0x24, 0x221E]"
    "\<not> two_fraction_units [0x2D, 0x24, 0x221E]"
    "\<not> two_fraction_units (units ''$NaN'')"
    by code_simp+
  from f n show ?thesis
    unfolding u by blast
qed

section \<open>The cards on screen\<close>

lemma first_render_filtered:
  "filteredCryptos (first_render dl e w) = filteredCryptos (view w)"
  by (cases e)
     (auto simp: setSelectedCurrency_def toggleDarkMode_def setSearchQuery_def
        setSelectedCrypto_def fetchCryptoData_start_def fetchCryptoData_finish_def
        fetchChartData_finish_def split: sum.splits)

lemma step_after_first_render:
  "view (step lw dl e w) = view w \<or>
   (\<exists>d. view (step lw dl e w) = fst (render_cycle lw d (first_render dl e w)))"
  by (cases e) (auto simp: commit_view Let_def split_def)

lemma step_assets:
  "cryptocurrencies (view (step lw dl e w)) = cryptocurrencies (view w) \<or>
   (\<exists>r response_data. e = MarketsSettled r (Inr response_data) \<and> r \<in> set (in_flight w) \<and>
      cryptocurrencies (view (step lw dl e w)) = response_data)"
proof (cases e)
  case (MarketsSettled r response)
  then show ?thesis
    by (cases response)
       (auto simp: Let_def commit_view render_cycle_view fetchCryptoData_finish_def)
next
  case (MarketChartSettled r response)
  then show ?thesis
    by (cases response)
       (auto simp: Let_def commit_view render_cycle_view fetchChartData_finish_def)
next
  case IntervalFired
  then show ?thesis
    by (auto simp: Let_def split_def commit_view render_cycle_view fetchCryptoData_start_def)
qed (auto simp: commit_view render_cycle_view setSelectedCurrency_def toggleDarkMode_def
      setSearchQuery_def setSelectedCrypto_def)

text \<open>
  C1, as the code has it: for every asset set and every query the filter gives exactly
  the records whose lowered name or lowered symbol has the lowered query as a
  contiguous part, in the order of the asset set. Where lowering works code unit by
  code unit on the texts of the search (as it does below U+0100) these are the records
  whose name or symbol contains the query, letter case ignored. At rest the stored
  filtered list is the filter of the current query over the current asset set. The
  render that follows an event still has the filtered list of before the event: the
  cards it draws, if any, are filtered from the asset set of before the event. The
  asset set changes only when a listing request in flight is answered with records,
  and then it is these records.
\<close>

theorem filtered_exact:
  "filtered lw q S =
     filter (\<lambda>c. (\<exists>before after. lw (name c) = before @ lw q @ after) \<or>
                 (\<exists>before after. lw (symbol c) = before @ lw q @ after)) S \<and>
   subseq (filtered lw q S) S \<and>
   (unit_by_unit lw (search_units q S) \<longrightarrow> filtered lw q S = spec_filtered lw q S) \<and>
   (reachable lw dl w \<longrightarrow>
      filteredCryptos (view w) = filtered lw (searchQuery (view w)) (cryptocurrencies (view w)) \<and>
      filteredCryptos (first_render dl e w)
        = filtered lw (searchQuery (view w)) (cryptocurrencies (view w)) \<and>
      cards_shown (first_render dl e w)
        = (if loading (first_render dl e w) then []
           else filtered lw (searchQuery (view w)) (cryptocurrencies (view w))) \<and>
      (cryptocurrencies (view (step lw dl e w)) = cryptocurrencies (view w) \<or>
       (\<exists>r response_data.
          e = MarketsSettled r (Inr response_data) \<and> r \<in> set (in_flight w) \<and>
          cryptocurrencies (view (step lw dl e w)) = response_data)))"
proof -
  have r: "filteredCryptos (view w) = filtered lw (searchQuery (view w)) (cryptocurrencies (view w))"
    if "reachable lw dl w"
    using filter_current_reachable[OF that] by (simp add: filter_current_def)
  have u: "unit_by_unit lw (search_units q S) \<longrightarrow> filtered lw q S = spec_filtered lw q S"
    using filtered_spec by blast
  have v: "reachable lw dl w \<longrightarrow>
      filteredCryptos (view w) = filtered lw (searchQuery (view w)) (cryptocurrencies (view w)) \<and>
      filteredCryptos (first_render dl e w)
        = filtered lw (searchQuery (view w)) (cryptocurrencies (view w)) \<and>
      cards_shown (first_render dl e w)
        = (if loading (first_render dl e w) then []
           else filtered lw (searchQuery (view w)) (cryptocurrencies (view w))) \<and>
      (cryptocurrencies (view (step lw dl e w)) = cryptocurrencies (view w) \<or>
       (\<exists>r response_data.
          e = MarketsSettled r (Inr response_data) \<and> r \<in> set (in_flight w) \<and>
          cryptocurrencies (view (step lw dl e w)) = response_data))"
    using r step_assets[of lw dl e w]
    by (simp add: cards_shown_def first_render_filtered)
  show ?thesis
    by (intro conjI filtered_parts subseq_filtered u v)
qed

theorem filtered_exact_witness:
  "unit_by_unit lower_units (search_units (units ''eth'') [bitcoin, ethereum]) \<and>
   spec_filtered lower_units (units ''eth'') [bitcoin, ethereum] = [ethereum] \<and>
   reachable lower_units day_label
     (run lower_units day_label [whole_listing, QueryTyped (units ''eth'')]
        (mounted lower_units)) \<and>
   filteredCryptos
     (view (run lower_units day_label [whole_listing, QueryTyped (units ''eth'')]
        (mounted lower_units))) = [ethereum] \<and>
   cards_shown
     (first_render day_label first_listing
        (run lower_units day_label [whole_listing, QueryTyped (units ''eth'')]
           (mounted lower_units))) = [ethereum]"
proof -
  let ?w = "run lower_units day_label [whole_listing, QueryTyped (units ''eth'')]
        (mounted lower_units)"
  note t = filtered_exact[where lw = lower_units and q = "units ''eth''"
      and S = "[bitcoin, ethereum]" and dl = day_label and w = ?w and e = first_listing]
  have u: "unit_by_unit lower_units (search_units (units ''eth'') [bitcoin, ethereum])"
    by (rule lower_units_unit_by_unit)
  have r: "reachable lower_units day_label ?w"
    unfolding reachable_def by blast
  have q: "searchQuery (view ?w) = units ''eth''"
    by code_simp
  have c: "cryptocurrencies (view ?w) = [bitcoin, ethereum]"
    by code_simp
  have f: "filtered lower_units (units ''eth'') [bitcoin, ethereum] = [ethereum]"
    by code_simp
  have l: "\<not> loading (first_render day_label first_listing ?w)"
    by code_simp
  from t u f have a1: "spec_filtered lower_units (units ''eth'') [bitcoin, ethereum] = [ethereum]"
    by simp
  from t r have a2: "filteredCryptos (view ?w) = [ethereum]"
    unfolding q c f by blast
  from t r have "cards_shown (first_render day_label first_listing ?w)
        = (if loading (first_render day_label first_listing ?w) then []
           else filtered lower_units (searchQuery (view ?w)) (cryptocurrencies (view ?w)))"
    by blast
  then have a3: "cards_shown (first_render day_label first_listing ?w) = [ethereum]"
    unfolding q c f using l by simp
  from u a1 r a2 a3 show ?thesis
    by blast
qed

text \<open>
  C1 as the specification states it fails twice. A record named with a capital A and a
  capital sigma has the query, a capital sigma, in its name as it stands, and the
  filter drops it: lowered in the name the sigma is a final sigma, lowered alone it is
  not. And on the mounted page, after a first listing response with bitcoin, the
  render that follows a second listing response with ethereum shows the card of
  bitcoin, which is no record of the most recent successful fetch.
\<close>

theorem filter_misses_final_sigma_and_lags:
  "name alpha_sigma = [0x41] @ sigma_query \<and>
   spec_filtered lower_letters sigma_query [alpha_sigma] = [alpha_sigma] \<and>
   filtered lower_letters sigma_query [alpha_sigma] = [] \<and>
   reachable lower_units day_label
     (run lower_units day_label [first_listing] (mounted lower_units)) \<and>
   cryptocurrencies
     (first_render day_label second_listing
        (run lower_units day_label [first_listing] (mounted lower_units))) = [ethereum] \<and>
   cards_shown
     (first_render day_label second_listing
        (run lower_units day_label [first_listing] (mounted lower_units))) = [bitcoin] \<and>
   bitcoin \<notin> set [ethereum]"
proof -
  let ?w = "run lower_units day_label [first_listing] (mounted lower_units)"
  have n: "name alpha_sigma = [0x41] @ sigma_query"
    by (simp add: alpha_sigma_def sigma_query_def)
  have "contains_ignoring_case lower_letters (name alpha_sigma) sigma_query"
    unfolding contains_ignoring_case_def same_ignoring_case_def
    using n by (intro exI[of _ "[0x41]"] exI[of _ sigma_query] exI[of _ "[]"]) simp
  then have s: "spec_filtered lower_letters sigma_query [alpha_sigma] = [alpha_sigma]"
    by (simp add: spec_filtered_def)
  have f: "filtered lower_letters sigma_query [alpha_sigma] = []"
    by code_simp
  have r: "reachable lower_units day_label ?w"
    unfolding reachable_def by blast
  have c: "cryptocurrencies (first_render day_label second_listing ?w) = [ethereum]"
    by code_simp
  have d: "cards_shown (first_render day_label second_listing ?w) = [bitcoin]"
    by code_simp
  have b: "bitcoin \<notin> set [ethereum]"
    by (simp add: bitcoin_def ethereum_def)
  from n s f r c d b show ?thesis
    by blast
qed

text \<open>
  C10, as the code has it: filtering with the empty query is the identity (lowering the
  empty text gives the empty text). The query is empty until the user types. While it
  is empty, the stored filtered list at rest is the whole asset set, and the render
  that follows an event draws, when it draws cards, the whole asset set of before the
  event.
\<close>

theorem empty_query_identity:
  "lw [] = [] \<longrightarrow>
     filtered lw [] S = S \<and>
     searchQuery initial_state = [] \<and>
     (reachable lw dl w \<and> searchQuery (view w) = [] \<longrightarrow>
        filteredCryptos (view w) = cryptocurrencies (view w) \<and>
        filteredCryptos (first_render dl e w) = cryptocurrencies (view w) \<and>
        cards_shown (first_render dl e w)
          = (if loading (first_render dl e w) then [] else cryptocurrencies (view w)))"
proof (intro impI conjI)
  assume l: "lw [] = []"
  show "filtered lw [] S = S"
    by (rule filtered_empty_query[of lw, OF l])
  show "searchQuery initial_state = []"
    by (simp add: initial_state_def)
  assume a: "reachable lw dl w \<and> searchQuery (view w) = []"
  then have f: "filteredCryptos (view w) = cryptocurrencies (view w)"
    using filter_current_reachable[of lw dl w] filtered_empty_query[of lw, OF l]
    by (simp add: filter_current_def)
  then show "filteredCryptos (view w) = cryptocurrencies (view w)" .
  from f show "filteredCryptos (first_render dl e w) = cryptocurrencies (view w)"
    by (simp add: first_render_filtered)
  from f show "cards_shown (first_render dl e w)
          = (if loading (first_render dl e w) then [] else cryptocurrencies (view w))"
    by (simp add: cards_shown_def first_render_filtered)
qed

theorem empty_query_identity_witness:
  "lower_units [] = [] \<and>
   filtered lower_units [] [bitcoin, ethereum] = [bitcoin, ethereum] \<and>
   reachable lower_units day_label
     (run lower_units day_label [whole_listing] (mounted lower_units)) \<and>
   searchQuery (view (run lower_units day_label [whole_listing] (mounted lower_units))) = [] \<and>
   filteredCryptos (view (run lower_units day_label [whole_listing] (mounted lower_units)))
     = [bitcoin, ethereum] \<and>
   cards_shown
     (first_render day_label second_listing
        (run lower_units day_label [whole_listing] (mounted lower_units)))
     = [bitcoin, ethereum]"
proof -
  let ?w = "run lower_units day_label [whole_listing] (mounted lower_units)"
  note t = empty_query_identity[where lw = lower_units and S = "[bitcoin, ethereum]"
      and dl = day_label and w = ?w and e = second_listing]
  have l: "lower_units [] = []"
    by (simp add: lower_units_def)
  have r: "reachable lower_units day_label ?w"
    unfolding reachable_def by blast
  have q: "searchQuery (view ?w) = []"
    by code_simp
  have c: "cryptocurrencies (view ?w) = [bitcoin, ethereum]"
    by code_simp
  have n: "\<not> loading (first_render day_label second_listing ?w)"
    by code_simp
  from t l have a1: "filtered lower_units [] [bitcoin, ethereum] = [bitcoin, ethereum]"
    by blast
  from t l r q have a2: "filteredCryptos (view ?w) = cryptocurrencies (view ?w)"
    by blast
  from t l r q have "cards_shown (first_render day_label second_listing ?w)
          = (if loading (first_render day_label second_listing ?w) then []
             else cryptocurrencies (view ?w))"
    by blast
  then have a3: "cards_shown (first_render day_label second_listing ?w) = [bitcoin, ethereum]"
    using n unfolding c by simp
  from l a1 r q a2 a3 show ?thesis
    unfolding c by blast
qed

text \<open>
  C10 as the specification states it fails: on the mounted page, before the user types
  anything, a listing response brings two records. The render that follows has the
  empty query and these two records as the asset set and draws no card; after its
  effects the asset set is still these two records and no card is drawn either.
\<close>

theorem latest_listing_not_displayed:
  "searchQuery (first_render day_label whole_listing (mounted lower_units)) = [] \<and>
   cryptocurrencies (first_render day_label whole_listing (mounted lower_units))
     = [bitcoin, ethereum] \<and>
   \<not> loading (first_render day_label whole_listing (mounted lower_units)) \<and>
   cards_shown (first_render day_label whole_listing (mounted lower_units)) = [] \<and>
   searchQuery (view (step lower_units day_label whole_listing (mounted lower_units))) = [] \<and>
   cryptocurrencies (view (step lower_units day_label whole_listing (mounted lower_units)))
     = [bitcoin, ethereum] \<and>
   cards_shown (view (step lower_units day_label whole_listing (mounted lower_units))) = []"
  by code_simp

end
